theory Spec2Isabelle
  imports Main
begin

section \<open>Credential resolution and client bootstrap of the Azure DevOps MCP server\<close>

text \<open>
  A shallow embedding of \<^verbatim>\<open>src/index.ts\<close>: the module-level start-up code (lines 37-42),
  \<^verbatim>\<open>getAzureDevOpsToken\<close> (lines 44-97) and \<^verbatim>\<open>getAzureDevOpsClient\<close> (lines 99-121).

  The code is effectful. Every effect is made explicit:
  \<^item> \<^verbatim>\<open>process.env\<close> is a map from names to strings that is passed in and returned;
  \<^item> every call that leaves the module (a diagnostic line on the error stream, the
    construction of a credential object, a \<^verbatim>\<open>getToken\<close> call, the construction of the
    API client) is recorded, in program order, in a list of events;
  \<^item> a \<^verbatim>\<open>throw\<close> is the left summand of the result;
  \<^item> the identity library and the network behind it are a parameter of the model: it
    says, for a credential object, whether its constructor returns or throws, and, for a
    credential object and a scope, whether the promise of \<^verbatim>\<open>getToken\<close> resolves (with a
    token or with nothing) or rejects.
  An \<^verbatim>\<open>await\<close> is modelled sequentially.
\<close>

subsection \<open>JavaScript values\<close>

text \<open>
  A value of type \<^verbatim>\<open>string | undefined\<close> is a \<open>string option\<close>. It is truthy when it is a
  non-empty string; \<^verbatim>\<open>a || b\<close> is \<open>a\<close> when \<open>a\<close> is truthy and \<open>b\<close> otherwise.
\<close>

definition truthy :: "string option \<Rightarrow> bool" where
  "truthy v = (case v of None \<Rightarrow> False | Some s \<Rightarrow> s \<noteq> [])"

definition js_or :: "string option \<Rightarrow> string option \<Rightarrow> string option" where
  "js_or a b = (if truthy a then a else b)"

text \<open>\<^verbatim>\<open>a || "lit"\<close> with a string literal on the right is always a string.\<close>

definition or_string :: "string option \<Rightarrow> string \<Rightarrow> string" where
  "or_string a d = (case a of None \<Rightarrow> d | Some s \<Rightarrow> if s = [] then d else s)"

text \<open>
  \<^verbatim>\<open>String.prototype.toLowerCase\<close>. Strings are byte strings here; the letters A to Z are
  mapped to a to z and every other byte is kept. The only use of the function in the
  source is a comparison of its result with \<^verbatim>\<open>"obo"\<close>, and no character outside A to Z
  has \<^verbatim>\<open>o\<close> or \<^verbatim>\<open>b\<close> as its lower-case form.
\<close>

definition lower_char :: "char \<Rightarrow> char" where
  "lower_char c =
     (case map_of (zip ''ABCDEFGHIJKLMNOPQRSTUVWXYZ'' ''abcdefghijklmnopqrstuvwxyz'') c of
        None \<Rightarrow> c
      | Some l \<Rightarrow> l)"

definition toLowerCase :: "string \<Rightarrow> string" where
  "toLowerCase s = map lower_char s"

text \<open>The values that appear in the payload of a diagnostic line.\<close>

datatype js_value = JUndefined | JString string | JNumber int

definition js_of :: "string option \<Rightarrow> js_value" where
  "js_of v = (case v of None \<Rightarrow> JUndefined | Some s \<Rightarrow> JString s)"

subsection \<open>Data\<close>

type_synonym env = "string \<rightharpoonup> string"

record AccessToken =
  token :: string
  expiresOnTimestamp :: int

text \<open>Every error of the module is a plain \<^verbatim>\<open>Error\<close> carrying a message.\<close>

datatype error = Error string

text \<open>
  The credential objects of \<^verbatim>\<open>@azure/identity\<close> that the module constructs.
  \<open>OnBehalfOfCredential\<close> carries, in this order, \<^verbatim>\<open>tenantId\<close>, \<^verbatim>\<open>clientId\<close>,
  \<^verbatim>\<open>clientSecret\<close> and \<^verbatim>\<open>userAssertionToken\<close>; \<open>AzureCliCredential\<close> carries
  \<^verbatim>\<open>tenantId\<close>; \<open>ChainedTokenCredential\<close> carries its sources in argument order.
\<close>

datatype credential =
    OnBehalfOfCredential "string option" "string option" "string option" "string option"
  | DefaultAzureCredential
  | AzureCliCredential "string option"
  | ChainedTokenCredential "credential list"

text \<open>What awaiting \<^verbatim>\<open>credential.getToken(scope)\<close> gives.\<close>

datatype getToken_result = Resolves "AccessToken option" | Rejects error

text \<open>
  The library \<^verbatim>\<open>@azure/identity\<close>, as far as the module meets it. \<open>construct\<close> is the
  call of a constructor: \<open>None\<close> when the object is returned, \<open>Some e\<close> when the
  constructor throws \<open>e\<close> (it may read \<^verbatim>\<open>process.env\<close>, as the constructor of the ambient
  default credential does with \<^verbatim>\<open>AZURE_TOKEN_CREDENTIALS\<close>). \<open>getToken\<close> is the awaited
  call of \<^verbatim>\<open>credential.getToken(scope)\<close>.
\<close>

record identity_provider =
  construct :: "env \<Rightarrow> credential \<Rightarrow> error option"
  getToken :: "env \<Rightarrow> credential \<Rightarrow> string \<Rightarrow> getToken_result"

record request_options =
  productName :: string
  productVersion :: string
  userAgent :: string

datatype auth_handler = BearerHandler string

text \<open>
  The connection object: built by \<^verbatim>\<open>WebApi.createWithBearerToken(orgUrl, token, _, options)\<close>
  or by \<^verbatim>\<open>new WebApi(orgUrl, authHandler, _, options)\<close>.
\<close>

datatype WebApi =
    CreatedWithBearerToken string string request_options
  | NewWebApi string auth_handler request_options

datatype event =
    ConsoleError string "(string \<times> js_value) list"
  | SetEnv string string
  | New credential
  | GetToken credential string
  | Call_createWithBearerToken string string
  | Call_getBearerHandler string
  | Call_new_WebApi string auth_handler

subsection \<open>Module start-up (lines 37-42)\<close>

record argv =
  organization :: "string option"
  tenant :: "string option"

record module_state =
  orgName :: string
  tenantId :: "string option"
  orgUrl :: string

definition startup :: "argv \<Rightarrow> env \<Rightarrow> error + module_state" where
  "startup args env =
     (let orgName = js_or (organization args) (env ''ADO_ORG'');
          tenantId = js_or (tenant args) (env ''AZURE_AD_TENANT_ID'')
      in case orgName of
           None \<Rightarrow> Inl (Error ''Azure DevOps organization is required. Provide as positional arg or set ADO_ORG env var.'')
         | Some n \<Rightarrow>
             if n = [] then Inl (Error ''Azure DevOps organization is required. Provide as positional arg or set ADO_ORG env var.'')
             else Inr \<lparr>orgName = n, tenantId = tenantId, orgUrl = ''https://dev.azure.com/'' @ n\<rparr>)"

subsection \<open>Token resolution (lines 44-97)\<close>

definition scope :: string where
  "scope = ''499b84ac-1321-427f-aa17-267ca6975798/.default''"

text \<open>The four errors that token resolution throws itself (lines 64, 67, 74 and 94).\<close>

definition err_no_assertion :: error where
  "err_no_assertion = Error ''ADO_AUTH=obo is set but MCP_USER_ASSERTION was not provided.''"

definition err_obo_settings :: error where
  "err_obo_settings = Error ''ADO_AUTH=obo requires AZURE_(AD_)TENANT_ID, AZURE_(AD_)CLIENT_ID and AZURE_(AD_)CLIENT_SECRET to be set.''"

definition err_obo_no_token :: error where
  "err_obo_no_token = Error ''On-behalf-of flow failed to acquire Azure DevOps token.''"

definition err_no_token :: error where
  "err_no_token = Error ''Failed to obtain Azure DevOps token. Ensure you have Azure CLI logged in or another token source setup correctly.''"

text \<open>Lines 46 and 102: \<^verbatim>\<open>(process.env.ADO_AUTH || "").toLowerCase()\<close>.\<close>

definition authMode :: "env \<Rightarrow> string" where
  "authMode env = toLowerCase (or_string (env ''ADO_AUTH'') [])"

text \<open>Lines 50-53: the four settings of the on-behalf-of flow.\<close>

definition userAssertion :: "env \<Rightarrow> string option" where
  "userAssertion env = js_or (env ''MCP_USER_ASSERTION'') (env ''ADO_USER_ASSERTION'')"

definition envTenant :: "module_state \<Rightarrow> env \<Rightarrow> string option" where
  "envTenant m env =
     js_or (js_or (env ''AZURE_AD_TENANT_ID'') (env ''AZURE_TENANT_ID'')) (tenantId m)"

definition clientId :: "env \<Rightarrow> string option" where
  "clientId env = js_or (env ''AZURE_AD_CLIENT_ID'') (env ''AZURE_CLIENT_ID'')"

definition clientSecret :: "env \<Rightarrow> string option" where
  "clientSecret env = js_or (env ''AZURE_AD_CLIENT_SECRET'') (env ''AZURE_CLIENT_SECRET'')"

text \<open>Lines 55-61: the diagnostic line written before the checks.\<close>

definition obo_start_record :: "module_state \<Rightarrow> env \<Rightarrow> event" where
  "obo_start_record m env =
     ConsoleError ''[ADO][OBO] Starting OBO token acquisition''
       [(''hasUserAssertion'', js_of (userAssertion env)),
        (''hasTenant'', js_of (envTenant m env)),
        (''hasClientId'', js_of (clientId env)),
        (''hasClientSecret'', js_of (clientSecret env)),
        (''orgUrl'', JString (orgUrl m))]"

text \<open>Line 72: \<^verbatim>\<open>{ expiresOn: token?.expiresOnTimestamp }\<close>, written before the check of line 73.\<close>

definition obo_acquired_record :: "AccessToken option \<Rightarrow> event" where
  "obo_acquired_record t =
     ConsoleError ''[ADO][OBO] Token acquired''
       [(''expiresOn'', (case t of None \<Rightarrow> JUndefined | Some a \<Rightarrow> JNumber (expiresOnTimestamp a)))]"

text \<open>Lines 49-77: the on-behalf-of branch.\<close>

definition oboFlow ::
  "module_state \<Rightarrow> identity_provider \<Rightarrow> env \<Rightarrow> (error + AccessToken) \<times> env \<times> event list" where
  "oboFlow m idp env =
     (if \<not> truthy (userAssertion env) then
        (Inl err_no_assertion, env,
         [obo_start_record m env])
      else if \<not> truthy (envTenant m env) \<or> \<not> truthy (clientId env) \<or> \<not> truthy (clientSecret env) then
        (Inl err_obo_settings, env,
         [obo_start_record m env])
      else
        (let obo = OnBehalfOfCredential (envTenant m env) (clientId env) (clientSecret env) (userAssertion env)
         in case construct idp env obo of
              Some e \<Rightarrow> (Inl e, env, [obo_start_record m env, New obo])
            | None \<Rightarrow>
                (case getToken idp env obo scope of
                   Rejects e \<Rightarrow>
                     (Inl e, env, [obo_start_record m env, New obo, GetToken obo scope])
                 | Resolves None \<Rightarrow>
                     (Inl err_obo_no_token, env,
                      [obo_start_record m env, New obo, GetToken obo scope, obo_acquired_record None])
                 | Resolves (Some t) \<Rightarrow>
                     (Inr t, env,
                      [obo_start_record m env, New obo, GetToken obo scope, obo_acquired_record (Some t)]))))"

text \<open>Lines 80-84: the selector of the ambient credential chain.\<close>

definition tokenCredentials :: "env \<Rightarrow> string" where
  "tokenCredentials env =
     (case env ''ADO_MCP_AZURE_TOKEN_CREDENTIALS'' of
        None \<Rightarrow> ''dev''
      | Some v \<Rightarrow> if v = [] then ''dev'' else v)"

text \<open>
  Lines 85-90: the credential of the default path, with the constructor calls in program
  order. A constructor that throws ends the construction; the call is in the trace all the
  same.
\<close>

definition defaultCredential ::
  "identity_provider \<Rightarrow> module_state \<Rightarrow> env \<Rightarrow> (error + credential) \<times> event list" where
  "defaultCredential idp m env =
     (case construct idp env DefaultAzureCredential of
        Some e \<Rightarrow> (Inl e, [New DefaultAzureCredential])
      | None \<Rightarrow>
          if truthy (tenantId m) then
            (case construct idp env (AzureCliCredential (tenantId m)) of
               Some e \<Rightarrow>
                 (Inl e, [New DefaultAzureCredential, New (AzureCliCredential (tenantId m))])
             | None \<Rightarrow>
                 (case construct idp env
                         (ChainedTokenCredential [AzureCliCredential (tenantId m), DefaultAzureCredential]) of
                    Some e \<Rightarrow>
                      (Inl e,
                       [New DefaultAzureCredential,
                        New (AzureCliCredential (tenantId m)),
                        New (ChainedTokenCredential [AzureCliCredential (tenantId m), DefaultAzureCredential])])
                  | None \<Rightarrow>
                      (Inr (ChainedTokenCredential [AzureCliCredential (tenantId m), DefaultAzureCredential]),
                       [New DefaultAzureCredential,
                        New (AzureCliCredential (tenantId m)),
                        New (ChainedTokenCredential [AzureCliCredential (tenantId m), DefaultAzureCredential])])))
          else (Inr DefaultAzureCredential, [New DefaultAzureCredential]))"

text \<open>Lines 79-96: the default path.\<close>

definition defaultFlow ::
  "module_state \<Rightarrow> identity_provider \<Rightarrow> env \<Rightarrow> (error + AccessToken) \<times> env \<times> event list" where
  "defaultFlow m idp env =
     (let env' = env(''AZURE_TOKEN_CREDENTIALS'' \<mapsto> tokenCredentials env);
          set_ev = SetEnv ''AZURE_TOKEN_CREDENTIALS'' (tokenCredentials env);
          news = snd (defaultCredential idp m env')
      in case fst (defaultCredential idp m env') of
           Inl e \<Rightarrow> (Inl e, env', set_ev # news)
         | Inr credential \<Rightarrow>
             (case getToken idp env' credential scope of
                Rejects e \<Rightarrow> (Inl e, env', set_ev # news @ [GetToken credential scope])
              | Resolves None \<Rightarrow>
                  (Inl err_no_token, env', set_ev # news @ [GetToken credential scope])
              | Resolves (Some t) \<Rightarrow> (Inr t, env', set_ev # news @ [GetToken credential scope])))"

definition getAzureDevOpsToken ::
  "module_state \<Rightarrow> identity_provider \<Rightarrow> env \<Rightarrow> (error + AccessToken) \<times> env \<times> event list" where
  "getAzureDevOpsToken m idp env =
     (if authMode env = ''obo'' then oboFlow m idp env else defaultFlow m idp env)"

subsection \<open>Client construction (lines 99-121)\<close>

text \<open>
  \<open>packageVersion\<close> comes from \<^verbatim>\<open>./version.js\<close>, the user-agent string is read from the
  \<^verbatim>\<open>UserAgentComposer\<close> when the client is built, and \<open>hasCreateWithBearerToken\<close> is the
  outcome of the test \<^verbatim>\<open>typeof WebApi.createWithBearerToken === "function"\<close>; the three are
  parameters. The calls into \<^verbatim>\<open>azure-devops-node-api\<close> are taken to return; the
  properties below speak of a client construction that fails in token resolution or that
  succeeds.
\<close>

record client_context =
  packageVersion :: string
  composedUserAgent :: string
  hasCreateWithBearerToken :: bool

definition client_options :: "client_context \<Rightarrow> request_options" where
  "client_options cx =
     \<lparr>productName = ''AzureDevOps.MCP'', productVersion = packageVersion cx,
      userAgent = composedUserAgent cx\<rparr>"

definition initialized_record :: "module_state \<Rightarrow> string \<Rightarrow> event" where
  "initialized_record m mode =
     ConsoleError ''[ADO] WebApi client initialized''
       [(''orgUrl'', JString (orgUrl m)), (''authMode'', JString mode)]"

definition getAzureDevOpsClient ::
  "module_state \<Rightarrow> client_context \<Rightarrow> identity_provider \<Rightarrow> env \<Rightarrow> (error + WebApi) \<times> env \<times> event list" where
  "getAzureDevOpsClient m cx idp env =
     (case getAzureDevOpsToken m idp env of
        (Inl e, env', tr) \<Rightarrow> (Inl e, env', tr)
      | (Inr t, env', tr) \<Rightarrow>
          if authMode env' = ''obo'' \<and> hasCreateWithBearerToken cx then
            (Inr (CreatedWithBearerToken (orgUrl m) (token t) (client_options cx)), env',
             tr @ [Call_createWithBearerToken (orgUrl m) (token t),
                   initialized_record m (authMode env')])
          else
            (Inr (NewWebApi (orgUrl m) (BearerHandler (token t)) (client_options cx)), env',
             tr @ [Call_getBearerHandler (token t),
                   Call_new_WebApi (orgUrl m) (BearerHandler (token t)),
                   initialized_record m (authMode env')]))"

subsection \<open>Reading an outcome\<close>

definition result_of :: "'a \<times> env \<times> event list \<Rightarrow> 'a" where
  "result_of out = fst out"

definition env_of :: "'a \<times> env \<times> event list \<Rightarrow> env" where
  "env_of out = fst (snd out)"

definition trace_of :: "'a \<times> env \<times> event list \<Rightarrow> event list" where
  "trace_of out = snd (snd out)"

text \<open>
  The error classes of the specification. The source throws plain \<^verbatim>\<open>Error\<close> objects; the
  classes are told apart by which \<^verbatim>\<open>throw\<close> statement raised them.
\<close>

definition ConfigurationError :: "error \<Rightarrow> bool" where
  "ConfigurationError e = (e = err_no_assertion \<or> e = err_obo_settings)"

definition AuthenticationError :: "error \<Rightarrow> bool" where
  "AuthenticationError e = (e = err_obo_no_token \<or> e = err_no_token)"

text \<open>Kinds of events.\<close>

fun is_obo_credential :: "credential \<Rightarrow> bool" where
  "is_obo_credential (OnBehalfOfCredential t c s u) = True"
| "is_obo_credential DefaultAzureCredential = False"
| "is_obo_credential (AzureCliCredential t) = False"
| "is_obo_credential (ChainedTokenCredential cs) = False"

fun constructs_credential :: "event \<Rightarrow> bool" where
  "constructs_credential (New c) = True"
| "constructs_credential (ConsoleError msg payload) = False"
| "constructs_credential (SetEnv k v) = False"
| "constructs_credential (GetToken c s) = False"
| "constructs_credential (Call_createWithBearerToken u t) = False"
| "constructs_credential (Call_getBearerHandler t) = False"
| "constructs_credential (Call_new_WebApi u h) = False"

fun network_call :: "event \<Rightarrow> bool" where
  "network_call (GetToken c s) = True"
| "network_call (ConsoleError msg payload) = False"
| "network_call (SetEnv k v) = False"
| "network_call (New c) = False"
| "network_call (Call_createWithBearerToken u t) = False"
| "network_call (Call_getBearerHandler t) = False"
| "network_call (Call_new_WebApi u h) = False"

fun client_event :: "event \<Rightarrow> bool" where
  "client_event (Call_createWithBearerToken u t) = True"
| "client_event (Call_getBearerHandler t) = True"
| "client_event (Call_new_WebApi u h) = True"
| "client_event (ConsoleError msg payload) = False"
| "client_event (SetEnv k v) = False"
| "client_event (New c) = False"
| "client_event (GetToken c s) = False"

text \<open>
  The events of the delegated path: its two diagnostic lines, the construction of the
  on-behalf-of credential and the call of its \<^verbatim>\<open>getToken\<close>.
\<close>

fun obo_path_event :: "event \<Rightarrow> bool" where
  "obo_path_event (ConsoleError msg payload) =
     (msg = ''[ADO][OBO] Starting OBO token acquisition'' \<or> msg = ''[ADO][OBO] Token acquired'')"
| "obo_path_event (New c) = is_obo_credential c"
| "obo_path_event (GetToken c s) = is_obo_credential c"
| "obo_path_event (SetEnv k v) = False"
| "obo_path_event (Call_createWithBearerToken u t) = False"
| "obo_path_event (Call_getBearerHandler t) = False"
| "obo_path_event (Call_new_WebApi u h) = False"

text \<open>
  The events of the default path: the assignment of the chain selector, the construction
  of an ambient, CLI or chained credential and the call of its \<^verbatim>\<open>getToken\<close>.
\<close>

fun default_path_event :: "event \<Rightarrow> bool" where
  "default_path_event (SetEnv k v) = True"
| "default_path_event (New c) = (\<not> is_obo_credential c)"
| "default_path_event (GetToken c s) = (\<not> is_obo_credential c)"
| "default_path_event (ConsoleError msg payload) = False"
| "default_path_event (Call_createWithBearerToken u t) = False"
| "default_path_event (Call_getBearerHandler t) = False"
| "default_path_event (Call_new_WebApi u h) = False"

text \<open>
  \<open>set_before_new v tr\<close>: the trace assigns \<open>v\<close> to \<^verbatim>\<open>AZURE_TOKEN_CREDENTIALS\<close>, and does so
  before it constructs any credential object.
\<close>

fun set_before_new :: "string \<Rightarrow> event list \<Rightarrow> bool" where
  "set_before_new v [] = False"
| "set_before_new v (e # es) =
     (if e = SetEnv ''AZURE_TOKEN_CREDENTIALS'' v then True
      else if constructs_credential e then False
      else set_before_new v es)"

fun bearer_token :: "WebApi \<Rightarrow> string" where
  "bearer_token (CreatedWithBearerToken u t opts) = t"
| "bearer_token (NewWebApi u (BearerHandler t) opts) = t"

fun direct_bearer_client :: "WebApi \<Rightarrow> bool" where
  "direct_bearer_client (CreatedWithBearerToken u t opts) = True"
| "direct_bearer_client (NewWebApi u h opts) = False"

subsection \<open>The credential chain\<close>

text \<open>The entries of a credential, in the order of the constructor's arguments.\<close>

fun sources :: "credential \<Rightarrow> credential list" where
  "sources (ChainedTokenCredential cs) = cs"
| "sources (OnBehalfOfCredential t c s u) = [OnBehalfOfCredential t c s u]"
| "sources DefaultAzureCredential = [DefaultAzureCredential]"
| "sources (AzureCliCredential t) = [AzureCliCredential t]"

text \<open>
  Modelled from the spec: \<^verbatim>\<open>ChainedTokenCredential.getToken\<close> belongs to the library
  \<^verbatim>\<open>@azure/identity\<close> and is not part of the sources. The specification says of it: the
  chain tries entries strictly in order, returning the first successful token.
  \<open>chain_attempts entry cs\<close> is the list of the entries that are tried, given what each
  entry would answer.
\<close>

fun chain_attempts :: "(credential \<Rightarrow> getToken_result) \<Rightarrow> credential list \<Rightarrow> credential list" where
  "chain_attempts entry [] = []"
| "chain_attempts entry (c # cs) =
     (case entry c of
        Resolves (Some t) \<Rightarrow> [c]
      | Resolves None \<Rightarrow> c # chain_attempts entry cs
      | Rejects e \<Rightarrow> c # chain_attempts entry cs)"

subsection \<open>A process\<close>

text \<open>
  One process runs a sequence of operations on one \<^verbatim>\<open>process.env\<close>: token resolutions,
  client constructions and, between them, assignments to \<^verbatim>\<open>process.env\<close> by other code of
  the process. \<open>run\<close> executes the operations in order, each on the environment that the
  one before it left, and gives the trace of every token resolution and client
  construction.
\<close>

datatype operation = ResolveToken | BuildClient | AssignEnv string string

fun run ::
  "module_state \<Rightarrow> client_context \<Rightarrow> identity_provider \<Rightarrow> operation list \<Rightarrow> env \<Rightarrow> event list list" where
  "run m cx idp [] env = []"
| "run m cx idp (AssignEnv k v # ops) env = run m cx idp ops (env(k \<mapsto> v))"
| "run m cx idp (ResolveToken # ops) env =
     trace_of (getAzureDevOpsToken m idp env) #
     run m cx idp ops (env_of (getAzureDevOpsToken m idp env))"
| "run m cx idp (BuildClient # ops) env =
     trace_of (getAzureDevOpsClient m cx idp env) #
     run m cx idp ops (env_of (getAzureDevOpsClient m cx idp env))"

text \<open>
  What a trace shows of the mode: which path the token resolution took (the events of
  \<open>obo_path_event\<close> and \<open>default_path_event\<close>), and the value that a client
  construction wrote under \<^verbatim>\<open>authMode\<close> in its line \<^verbatim>\<open>[ADO] WebApi client initialized\<close>.
\<close>

fun logged_mode :: "event \<Rightarrow> string option" where
  "logged_mode (ConsoleError msg payload) =
     (if msg = ''[ADO] WebApi client initialized'' then
        (case map_of payload ''authMode'' of
           Some (JString mode) \<Rightarrow> Some mode
         | Some JUndefined \<Rightarrow> None
         | Some (JNumber n) \<Rightarrow> None
         | None \<Rightarrow> None)
      else None)"
| "logged_mode (SetEnv k v) = None"
| "logged_mode (New c) = None"
| "logged_mode (GetToken c s) = None"
| "logged_mode (Call_createWithBearerToken u t) = None"
| "logged_mode (Call_getBearerHandler t) = None"
| "logged_mode (Call_new_WebApi u h) = None"

fun logged_modes :: "event list \<Rightarrow> string list" where
  "logged_modes [] = []"
| "logged_modes (e # es) =
     (case logged_mode e of None \<Rightarrow> logged_modes es | Some mode \<Rightarrow> mode # logged_modes es)"

fun assigns_ADO_AUTH :: "operation \<Rightarrow> bool" where
  "assigns_ADO_AUTH (AssignEnv k v) = (k = ''ADO_AUTH'')"
| "assigns_ADO_AUTH ResolveToken = False"
| "assigns_ADO_AUTH BuildClient = False"

fun all_equal :: "string list \<Rightarrow> bool" where
  "all_equal [] = True"
| "all_equal [x] = True"
| "all_equal (x # y # ys) = (x = y \<and> all_equal (y # ys))"

subsection \<open>The naming rule of the specification\<close>

text \<open>
  The rule as the specification words it: a setting has a primary and a fallback
  environment variable, and the first non-empty value wins; when both are empty or unset
  the setting is absent.
\<close>

definition first_non_empty :: "env \<Rightarrow> string \<Rightarrow> string \<Rightarrow> string option" where
  "first_non_empty env primary fallback =
     (if truthy (env primary) then env primary
      else if truthy (env fallback) then env fallback
      else None)"

text \<open>A setting that is the empty string counts as absent.\<close>

definition present :: "string option \<Rightarrow> string option" where
  "present v = (if truthy v then v else None)"

subsection \<open>Concrete inputs\<close>

definition contoso :: module_state where
  "contoso = \<lparr>orgName = ''contoso'', tenantId = None, orgUrl = ''https://dev.azure.com/contoso''\<rparr>"

definition contoso_tenant :: module_state where
  "contoso_tenant =
     \<lparr>orgName = ''contoso'', tenantId = Some ''t1'', orgUrl = ''https://dev.azure.com/contoso''\<rparr>"

definition cx0 :: client_context where
  "cx0 = \<lparr>packageVersion = ''1.2.3'', composedUserAgent = ''AzureDevOps.MCP/1.2.3'',
          hasCreateWithBearerToken = True\<rparr>"

definition tok0 :: AccessToken where
  "tok0 = \<lparr>token = ''tok'', expiresOnTimestamp = 1700000000000\<rparr>"

definition empty_tok :: AccessToken where
  "empty_tok = \<lparr>token = [], expiresOnTimestamp = 1700000000000\<rparr>"

definition idp_ok :: identity_provider where
  "idp_ok = \<lparr>construct = (\<lambda>env c. None), getToken = (\<lambda>env c s. Resolves (Some tok0))\<rparr>"

definition idp_none :: identity_provider where
  "idp_none = \<lparr>construct = (\<lambda>env c. None), getToken = (\<lambda>env c s. Resolves None)\<rparr>"

definition idp_empty :: identity_provider where
  "idp_empty = \<lparr>construct = (\<lambda>env c. None), getToken = (\<lambda>env c s. Resolves (Some empty_tok))\<rparr>"



definition env_obo_settings :: env where
  "env_obo_settings = map_of
     [(''MCP_USER_ASSERTION'', ''user-jwt''),
      (''AZURE_TENANT_ID'', ''t0''),
      (''AZURE_CLIENT_ID'', ''app''),
      (''AZURE_CLIENT_SECRET'', ''s3cret'')]"

definition env_default :: env where
  "env_default = Map.empty"

definition env_obo :: env where
  "env_obo = map_of
     [(''ADO_AUTH'', ''OBO''),
      (''MCP_USER_ASSERTION'', ''user-jwt''),
      (''AZURE_TENANT_ID'', ''t0''),
      (''AZURE_CLIENT_ID'', ''app''),
      (''AZURE_CLIENT_SECRET'', ''s3cret'')]"

definition env_obo_no_assertion :: env where
  "env_obo_no_assertion = map_of
     [(''ADO_AUTH'', ''obo''),
      (''AZURE_TENANT_ID'', ''t0''),
      (''AZURE_CLIENT_ID'', ''app''),
      (''AZURE_CLIENT_SECRET'', ''s3cret'')]"

definition env_obo_no_tenant :: env where
  "env_obo_no_tenant = map_of
     [(''ADO_AUTH'', ''obo''),
      (''MCP_USER_ASSERTION'', ''user-jwt''),
      (''AZURE_CLIENT_ID'', ''app''),
      (''AZURE_CLIENT_SECRET'', ''s3cret'')]"

text \<open>
  \<open>env_obo_settings\<close> after a token resolution on the default path and an assignment of
  \<^verbatim>\<open>obo\<close> to \<^verbatim>\<open>ADO_AUTH\<close>.
\<close>

definition env_flag_assigned :: env where
  "env_flag_assigned =
     (env_obo_settings(''AZURE_TOKEN_CREDENTIALS'' \<mapsto> ''dev''))(''ADO_AUTH'' \<mapsto> ''obo'')"

text \<open>An entry behaviour for the chain: the CLI credential fails, every other entry answers.\<close>

definition cli_fails :: "credential \<Rightarrow> getToken_result" where
  "cli_fails c = (case c of AzureCliCredential t \<Rightarrow> Rejects (Error ''az login required'') | _ \<Rightarrow> Resolves (Some tok0))"

section \<open>Properties\<close>

subsection \<open>Auxiliary facts\<close>

lemmas out_defs = result_of_def env_of_def trace_of_def

lemma oboFlow_env: "env_of (oboFlow m idp env) = env"
  by (simp add: oboFlow_def env_of_def Let_def split: getToken_result.split option.split)

lemma defaultFlow_env:
  "env_of (defaultFlow m idp env) = env(''AZURE_TOKEN_CREDENTIALS'' \<mapsto> tokenCredentials env)"
  by (simp add: defaultFlow_def env_of_def Let_def
      split: sum.split getToken_result.split option.split)

lemma defaultFlow_thrown:
  "fst (defaultCredential idp m (env(''AZURE_TOKEN_CREDENTIALS'' \<mapsto> tokenCredentials env))) = Inl e \<Longrightarrow>
     defaultFlow m idp env =
       (Inl e, env(''AZURE_TOKEN_CREDENTIALS'' \<mapsto> tokenCredentials env),
        SetEnv ''AZURE_TOKEN_CREDENTIALS'' (tokenCredentials env) #
        snd (defaultCredential idp m (env(''AZURE_TOKEN_CREDENTIALS'' \<mapsto> tokenCredentials env))))"
  by (simp add: defaultFlow_def Let_def)

lemma defaultFlow_built:
  "fst (defaultCredential idp m (env(''AZURE_TOKEN_CREDENTIALS'' \<mapsto> tokenCredentials env))) = Inr c \<Longrightarrow>
     defaultFlow m idp env =
       ((case getToken idp (env(''AZURE_TOKEN_CREDENTIALS'' \<mapsto> tokenCredentials env)) c scope of
           Rejects e \<Rightarrow> Inl e
         | Resolves None \<Rightarrow> Inl err_no_token
         | Resolves (Some t) \<Rightarrow> Inr t),
        env(''AZURE_TOKEN_CREDENTIALS'' \<mapsto> tokenCredentials env),
        SetEnv ''AZURE_TOKEN_CREDENTIALS'' (tokenCredentials env) #
        snd (defaultCredential idp m (env(''AZURE_TOKEN_CREDENTIALS'' \<mapsto> tokenCredentials env))) @
        [GetToken c scope])"
  by (simp add: defaultFlow_def Let_def split: getToken_result.split option.split)

lemma defaultCredential_news:
  "snd (defaultCredential idp m e) = [New DefaultAzureCredential] \<or>
   snd (defaultCredential idp m e) =
     [New DefaultAzureCredential, New (AzureCliCredential (tenantId m))] \<or>
   snd (defaultCredential idp m e) =
     [New DefaultAzureCredential, New (AzureCliCredential (tenantId m)),
      New (ChainedTokenCredential [AzureCliCredential (tenantId m), DefaultAzureCredential])]"
  by (simp add: defaultCredential_def split: option.split)

lemma defaultCredential_built:
  "fst (defaultCredential idp m e) = Inr c \<Longrightarrow>
     c = (if truthy (tenantId m)
          then ChainedTokenCredential [AzureCliCredential (tenantId m), DefaultAzureCredential]
          else DefaultAzureCredential)"
  by (simp add: defaultCredential_def split: option.splits if_splits)

lemma defaultCredential_not_obo:
  "fst (defaultCredential idp m e) = Inr c \<Longrightarrow> \<not> is_obo_credential c"
  by (auto dest: defaultCredential_built split: if_splits)

lemma defaultCredential_events:
  "x \<in> set (snd (defaultCredential idp m e)) \<Longrightarrow>
     default_path_event x \<and> \<not> obo_path_event x \<and> \<not> network_call x \<and> \<not> client_event x \<and>
     logged_mode x = None"
  using defaultCredential_news [of idp m e] by auto

lemma defaultFlow_trace_cases:
  "\<exists>r. trace_of (defaultFlow m idp env) =
         SetEnv ''AZURE_TOKEN_CREDENTIALS'' (tokenCredentials env) #
         snd (defaultCredential idp m (env(''AZURE_TOKEN_CREDENTIALS'' \<mapsto> tokenCredentials env))) @ r \<and>
       (r = [] \<or>
        (\<exists>c. fst (defaultCredential idp m (env(''AZURE_TOKEN_CREDENTIALS'' \<mapsto> tokenCredentials env))) = Inr c \<and>
             r = [GetToken c scope]))"
proof (cases "fst (defaultCredential idp m (env(''AZURE_TOKEN_CREDENTIALS'' \<mapsto> tokenCredentials env)))")
  case (Inl e)
  then show ?thesis
    by (simp add: defaultFlow_thrown trace_of_def)
next
  case (Inr c)
  then show ?thesis
    by (simp add: defaultFlow_built trace_of_def)
qed

lemma oboFlow_trace_cases:
  "trace_of (oboFlow m idp env) = [obo_start_record m env] \<or>
   (\<exists>t c s u r. trace_of (oboFlow m idp env) =
      obo_start_record m env # New (OnBehalfOfCredential t c s u) # r \<and>
      (r = [] \<or> r = [GetToken (OnBehalfOfCredential t c s u) scope] \<or>
       (\<exists>a. r = [GetToken (OnBehalfOfCredential t c s u) scope, obo_acquired_record a])))"
  by (auto simp add: oboFlow_def trace_of_def Let_def split: getToken_result.split option.split)

lemma obo_records_kind:
  "obo_path_event (obo_start_record m env) \<and> \<not> default_path_event (obo_start_record m env) \<and>
   \<not> network_call (obo_start_record m env) \<and> \<not> constructs_credential (obo_start_record m env) \<and>
   \<not> client_event (obo_start_record m env) \<and> logged_mode (obo_start_record m env) = None \<and>
   obo_path_event (obo_acquired_record a) \<and> \<not> default_path_event (obo_acquired_record a) \<and>
   \<not> network_call (obo_acquired_record a) \<and> \<not> constructs_credential (obo_acquired_record a) \<and>
   \<not> client_event (obo_acquired_record a) \<and> logged_mode (obo_acquired_record a) = None"
  by (simp add: obo_start_record_def obo_acquired_record_def)

lemma oboFlow_events:
  "e \<in> set (trace_of (oboFlow m idp env)) \<Longrightarrow>
     obo_path_event e \<and> \<not> default_path_event e \<and> \<not> client_event e \<and> logged_mode e = None"
  using oboFlow_trace_cases [of m idp env] obo_records_kind
  by auto

lemma defaultFlow_events:
  "e \<in> set (trace_of (defaultFlow m idp env)) \<Longrightarrow>
     default_path_event e \<and> \<not> obo_path_event e \<and> \<not> client_event e \<and> logged_mode e = None"
proof -
  assume e: "e \<in> set (trace_of (defaultFlow m idp env))"
  from defaultFlow_trace_cases [of m idp env] obtain r where
    tr: "trace_of (defaultFlow m idp env) =
           SetEnv ''AZURE_TOKEN_CREDENTIALS'' (tokenCredentials env) #
           snd (defaultCredential idp m (env(''AZURE_TOKEN_CREDENTIALS'' \<mapsto> tokenCredentials env))) @ r"
    and r: "r = [] \<or>
        (\<exists>c. fst (defaultCredential idp m (env(''AZURE_TOKEN_CREDENTIALS'' \<mapsto> tokenCredentials env))) = Inr c \<and>
             r = [GetToken c scope])"
    by blast
  from e tr have
    "e = SetEnv ''AZURE_TOKEN_CREDENTIALS'' (tokenCredentials env) \<or>
     e \<in> set (snd (defaultCredential idp m (env(''AZURE_TOKEN_CREDENTIALS'' \<mapsto> tokenCredentials env)))) \<or>
     e \<in> set r"
    by auto
  then show ?thesis
  proof (elim disjE)
    assume "e = SetEnv ''AZURE_TOKEN_CREDENTIALS'' (tokenCredentials env)"
    then show ?thesis by simp
  next
    assume "e \<in> set (snd (defaultCredential idp m (env(''AZURE_TOKEN_CREDENTIALS'' \<mapsto> tokenCredentials env))))"
    then show ?thesis using defaultCredential_events by blast
  next
    assume "e \<in> set r"
    with r show ?thesis using defaultCredential_not_obo by auto
  qed
qed

lemma token_events:
  "e \<in> set (trace_of (getAzureDevOpsToken m idp env)) \<Longrightarrow>
     (obo_path_event e \<longleftrightarrow> authMode env = ''obo'') \<and>
     (default_path_event e \<longleftrightarrow> authMode env \<noteq> ''obo'') \<and>
     \<not> client_event e \<and> logged_mode e = None"
  using oboFlow_events [of e m idp env] defaultFlow_events [of e m idp env]
  by (simp add: getAzureDevOpsToken_def split: if_splits)

lemma token_trace_nonempty: "trace_of (getAzureDevOpsToken m idp env) \<noteq> []"
  using oboFlow_trace_cases [of m idp env] defaultFlow_trace_cases [of m idp env]
  by (auto simp: getAzureDevOpsToken_def)

lemma authMode_env_obo: "authMode env_obo = ''obo''"
  by (simp add: authMode_def env_obo_def or_string_def toLowerCase_def lower_char_def)

lemma authMode_env_default: "authMode env_default = []"
  by (simp add: authMode_def env_default_def or_string_def toLowerCase_def)

lemma tokenCredentials_env_default: "tokenCredentials env_default = ''dev''"
  by (simp add: tokenCredentials_def env_default_def)

lemma obo_settings_env_obo:
  "userAssertion env_obo = Some ''user-jwt'' \<and> envTenant contoso env_obo = Some ''t0'' \<and>
   clientId env_obo = Some ''app'' \<and> clientSecret env_obo = Some ''s3cret''"
  by (simp add: userAssertion_def envTenant_def clientId_def clientSecret_def env_obo_def
      contoso_def js_or_def truthy_def)

lemma token_env_obo:
  "getAzureDevOpsToken contoso idp_ok env_obo =
     (Inr tok0, env_obo,
      [obo_start_record contoso env_obo,
       New (OnBehalfOfCredential (Some ''t0'') (Some ''app'') (Some ''s3cret'') (Some ''user-jwt'')),
       GetToken (OnBehalfOfCredential (Some ''t0'') (Some ''app'') (Some ''s3cret'') (Some ''user-jwt'')) scope,
       obo_acquired_record (Some tok0)])"
  by (simp add: getAzureDevOpsToken_def authMode_env_obo oboFlow_def obo_settings_env_obo
      truthy_def idp_ok_def Let_def)

lemma defaultCredential_contoso_ok:
  "defaultCredential idp_ok contoso e = (Inr DefaultAzureCredential, [New DefaultAzureCredential])"
  by (simp add: defaultCredential_def idp_ok_def contoso_def truthy_def)

subsection \<open>C3: exactly one strategy runs\<close>

lemma oboFlow_complete:
  assumes "truthy (userAssertion env)" "truthy (envTenant m env)" "truthy (clientId env)"
    "truthy (clientSecret env)"
  shows "New (OnBehalfOfCredential (envTenant m env) (clientId env) (clientSecret env) (userAssertion env))
           \<in> set (trace_of (oboFlow m idp env)) \<and>
         (construct idp env
            (OnBehalfOfCredential (envTenant m env) (clientId env) (clientSecret env) (userAssertion env)) = None \<longrightarrow>
          GetToken (OnBehalfOfCredential (envTenant m env) (clientId env) (clientSecret env) (userAssertion env)) scope
            \<in> set (trace_of (oboFlow m idp env)) \<and>
          result_of (oboFlow m idp env) =
            (case getToken idp env
                    (OnBehalfOfCredential (envTenant m env) (clientId env) (clientSecret env) (userAssertion env))
                    scope of
               Rejects e \<Rightarrow> Inl e
             | Resolves None \<Rightarrow> Inl err_obo_no_token
             | Resolves (Some t) \<Rightarrow> Inr t))"
  using assms
  by (simp add: oboFlow_def out_defs Let_def split: getToken_result.split option.split)

lemma defaultFlow_take2:
  "take 2 (trace_of (defaultFlow m idp env)) =
     [SetEnv ''AZURE_TOKEN_CREDENTIALS'' (tokenCredentials env), New DefaultAzureCredential]"
  using defaultFlow_trace_cases [of m idp env]
        defaultCredential_news [of idp m "env(''AZURE_TOKEN_CREDENTIALS'' \<mapsto> tokenCredentials env)"]
  by auto

text \<open>
  C3. Every token resolution runs exactly one of the two strategies. When \<^verbatim>\<open>ADO_AUTH\<close>
  lower-cases to \<^verbatim>\<open>obo\<close> the delegated path runs: the trace begins with its diagnostic
  line; with a complete configuration the on-behalf-of credential is constructed from the
  four settings and, unless its constructor throws, it is the credential asked for the
  token and its answer decides the result. Nothing of the default path happens: no chain
  selector is assigned, no ambient, CLI or chained credential is constructed or asked for
  a token, and \<^verbatim>\<open>process.env\<close> is left as it was. In every other case the default path
  runs: the trace begins with the assignment of the selector and the construction of the
  ambient default credential and, unless a constructor throws, the credential of lines
  85-90 is asked for the token and its answer decides the result. Nothing of the
  delegated path happens: none of its diagnostic lines, no on-behalf-of credential
  constructed or asked.
\<close>
theorem exactly_one_strategy:
  "(authMode env = ''obo'' \<longrightarrow>
      hd (trace_of (getAzureDevOpsToken m idp env)) = obo_start_record m env \<and>
      list_ex obo_path_event (trace_of (getAzureDevOpsToken m idp env)) \<and>
      \<not> list_ex default_path_event (trace_of (getAzureDevOpsToken m idp env)) \<and>
      env_of (getAzureDevOpsToken m idp env) = env \<and>
      (truthy (userAssertion env) \<and> truthy (envTenant m env) \<and> truthy (clientId env) \<and>
       truthy (clientSecret env) \<longrightarrow>
         New (OnBehalfOfCredential (envTenant m env) (clientId env) (clientSecret env) (userAssertion env))
           \<in> set (trace_of (getAzureDevOpsToken m idp env)) \<and>
         (construct idp env
            (OnBehalfOfCredential (envTenant m env) (clientId env) (clientSecret env) (userAssertion env)) = None \<longrightarrow>
          GetToken (OnBehalfOfCredential (envTenant m env) (clientId env) (clientSecret env) (userAssertion env)) scope
            \<in> set (trace_of (getAzureDevOpsToken m idp env)) \<and>
          result_of (getAzureDevOpsToken m idp env) =
            (case getToken idp env
                    (OnBehalfOfCredential (envTenant m env) (clientId env) (clientSecret env) (userAssertion env))
                    scope of
               Rejects e \<Rightarrow> Inl e
             | Resolves None \<Rightarrow> Inl err_obo_no_token
             | Resolves (Some t) \<Rightarrow> Inr t)))) \<and>
   (authMode env \<noteq> ''obo'' \<longrightarrow>
      take 2 (trace_of (getAzureDevOpsToken m idp env)) =
        [SetEnv ''AZURE_TOKEN_CREDENTIALS'' (tokenCredentials env), New DefaultAzureCredential] \<and>
      list_ex default_path_event (trace_of (getAzureDevOpsToken m idp env)) \<and>
      \<not> list_ex obo_path_event (trace_of (getAzureDevOpsToken m idp env)) \<and>
      (fst (defaultCredential idp m (env_of (getAzureDevOpsToken m idp env))) = Inr c \<longrightarrow>
         \<not> is_obo_credential c \<and>
         GetToken c scope \<in> set (trace_of (getAzureDevOpsToken m idp env)) \<and>
         result_of (getAzureDevOpsToken m idp env) =
           (case getToken idp (env_of (getAzureDevOpsToken m idp env)) c scope of
              Rejects e \<Rightarrow> Inl e
            | Resolves None \<Rightarrow> Inl err_no_token
            | Resolves (Some t) \<Rightarrow> Inr t)))"
proof (cases "authMode env = ''obo''")
  case True
  then have g: "getAzureDevOpsToken m idp env = oboFlow m idp env"
    by (simp add: getAzureDevOpsToken_def)
  have h: "hd (trace_of (oboFlow m idp env)) = obo_start_record m env"
    using oboFlow_trace_cases [of m idp env] by auto
  have "obo_start_record m env \<in> set (trace_of (oboFlow m idp env))"
    using oboFlow_trace_cases [of m idp env] by auto
  then have p: "list_ex obo_path_event (trace_of (oboFlow m idp env))"
    unfolding list_ex_iff using oboFlow_events by blast
  have n: "\<not> list_ex default_path_event (trace_of (oboFlow m idp env))"
    unfolding list_ex_iff using oboFlow_events by blast
  from True g h p n oboFlow_env [of m idp env] oboFlow_complete [of env m idp]
  show ?thesis by simp
next
  case False
  then have g: "getAzureDevOpsToken m idp env = defaultFlow m idp env"
    by (simp add: getAzureDevOpsToken_def)
  have "SetEnv ''AZURE_TOKEN_CREDENTIALS'' (tokenCredentials env) \<in> set (trace_of (defaultFlow m idp env))"
    using defaultFlow_trace_cases [of m idp env] by auto
  then have p: "list_ex default_path_event (trace_of (defaultFlow m idp env))"
    unfolding list_ex_iff using defaultFlow_events by blast
  have n: "\<not> list_ex obo_path_event (trace_of (defaultFlow m idp env))"
    unfolding list_ex_iff using defaultFlow_events by blast
  have b: "fst (defaultCredential idp m (env_of (defaultFlow m idp env))) = Inr c \<longrightarrow>
         \<not> is_obo_credential c \<and>
         GetToken c scope \<in> set (trace_of (defaultFlow m idp env)) \<and>
         result_of (defaultFlow m idp env) =
           (case getToken idp (env_of (defaultFlow m idp env)) c scope of
              Rejects e \<Rightarrow> Inl e
            | Resolves None \<Rightarrow> Inl err_no_token
            | Resolves (Some t) \<Rightarrow> Inr t)"
  proof
    assume c: "fst (defaultCredential idp m (env_of (defaultFlow m idp env))) = Inr c"
    then have c': "fst (defaultCredential idp m (env(''AZURE_TOKEN_CREDENTIALS'' \<mapsto> tokenCredentials env))) = Inr c"
      by (simp add: defaultFlow_env)
    from defaultFlow_built [OF c'] defaultCredential_not_obo [OF c'] show
      "\<not> is_obo_credential c \<and>
         GetToken c scope \<in> set (trace_of (defaultFlow m idp env)) \<and>
         result_of (defaultFlow m idp env) =
           (case getToken idp (env_of (defaultFlow m idp env)) c scope of
              Rejects e \<Rightarrow> Inl e
            | Resolves None \<Rightarrow> Inl err_no_token
            | Resolves (Some t) \<Rightarrow> Inr t)"
      by (simp add: out_defs)
  qed
  from False g p n b defaultFlow_take2 [of m idp env] show ?thesis by simp
qed

text \<open>C3 at two concrete environments, one for each mode.\<close>
theorem exactly_one_strategy_witness:
  "authMode env_obo = ''obo'' \<and>
   truthy (userAssertion env_obo) \<and> truthy (envTenant contoso env_obo) \<and>
   truthy (clientId env_obo) \<and> truthy (clientSecret env_obo) \<and>
   construct idp_ok env_obo
     (OnBehalfOfCredential (envTenant contoso env_obo) (clientId env_obo) (clientSecret env_obo)
        (userAssertion env_obo)) = None \<and>
   GetToken (OnBehalfOfCredential (envTenant contoso env_obo) (clientId env_obo) (clientSecret env_obo)
        (userAssertion env_obo)) scope
     \<in> set (trace_of (getAzureDevOpsToken contoso idp_ok env_obo)) \<and>
   \<not> list_ex default_path_event (trace_of (getAzureDevOpsToken contoso idp_ok env_obo)) \<and>
   authMode env_default \<noteq> ''obo'' \<and>
   fst (defaultCredential idp_ok contoso (env_of (getAzureDevOpsToken contoso idp_ok env_default))) =
     Inr DefaultAzureCredential \<and>
   GetToken DefaultAzureCredential scope \<in> set (trace_of (getAzureDevOpsToken contoso idp_ok env_default)) \<and>
   \<not> list_ex obo_path_event (trace_of (getAzureDevOpsToken contoso idp_ok env_default))"
proof -
  have h: "authMode env_obo = ''obo'' \<and>
     truthy (userAssertion env_obo) \<and> truthy (envTenant contoso env_obo) \<and>
     truthy (clientId env_obo) \<and> truthy (clientSecret env_obo) \<and>
     construct idp_ok env_obo
       (OnBehalfOfCredential (envTenant contoso env_obo) (clientId env_obo) (clientSecret env_obo)
          (userAssertion env_obo)) = None"
    by (simp add: authMode_env_obo obo_settings_env_obo truthy_def idp_ok_def)
  have d: "authMode env_default \<noteq> ''obo'' \<and>
     fst (defaultCredential idp_ok contoso (env_of (getAzureDevOpsToken contoso idp_ok env_default))) =
       Inr DefaultAzureCredential"
    by (simp add: authMode_env_default defaultCredential_contoso_ok)
  from h exactly_one_strategy [of env_obo contoso idp_ok] have o:
    "GetToken (OnBehalfOfCredential (envTenant contoso env_obo) (clientId env_obo) (clientSecret env_obo)
        (userAssertion env_obo)) scope
       \<in> set (trace_of (getAzureDevOpsToken contoso idp_ok env_obo)) \<and>
     \<not> list_ex default_path_event (trace_of (getAzureDevOpsToken contoso idp_ok env_obo))"
    by blast
  from d exactly_one_strategy [of env_default contoso idp_ok DefaultAzureCredential] have e:
    "GetToken DefaultAzureCredential scope \<in> set (trace_of (getAzureDevOpsToken contoso idp_ok env_default)) \<and>
     \<not> list_ex obo_path_event (trace_of (getAzureDevOpsToken contoso idp_ok env_default))"
    by blast
  from h d o e show ?thesis by blast
qed

subsection \<open>C4: a missing on-behalf-of setting\<close>

lemma oboFlow_no_assertion:
  "\<not> truthy (userAssertion env) \<Longrightarrow>
     oboFlow m idp env = (Inl err_no_assertion, env, [obo_start_record m env])"
  by (simp add: oboFlow_def)

lemma oboFlow_missing_setting:
  "truthy (userAssertion env) \<Longrightarrow>
   \<not> truthy (envTenant m env) \<or> \<not> truthy (clientId env) \<or> \<not> truthy (clientSecret env) \<Longrightarrow>
     oboFlow m idp env = (Inl err_obo_settings, env, [obo_start_record m env])"
  by (auto simp add: oboFlow_def)

lemma start_record_kind:
  "\<not> network_call (obo_start_record m env) \<and> \<not> constructs_credential (obo_start_record m env)"
  by (simp add: obo_start_record_def)

text \<open>
  C4. In on-behalf-of mode, when the user assertion, the tenant id, the client id or the
  client secret is absent, token resolution fails with a configuration error, and the
  trace holds no \<^verbatim>\<open>getToken\<close> call and no credential construction. An absent user
  assertion gives the error about the assertion; when the assertion is there and one of
  the other three is absent, the one combined error about the three is given.
\<close>
theorem obo_missing_setting_is_configuration_error:
  assumes mode: "authMode env = ''obo''"
    and missing: "\<not> truthy (userAssertion env) \<or> \<not> truthy (envTenant m env) \<or>
                  \<not> truthy (clientId env) \<or> \<not> truthy (clientSecret env)"
  shows "(\<exists>e. result_of (getAzureDevOpsToken m idp env) = Inl e \<and> ConfigurationError e) \<and>
         \<not> list_ex network_call (trace_of (getAzureDevOpsToken m idp env)) \<and>
         \<not> list_ex constructs_credential (trace_of (getAzureDevOpsToken m idp env)) \<and>
         (\<not> truthy (userAssertion env) \<longrightarrow>
            result_of (getAzureDevOpsToken m idp env) = Inl err_no_assertion) \<and>
         (truthy (userAssertion env) \<longrightarrow>
            result_of (getAzureDevOpsToken m idp env) = Inl err_obo_settings)"
proof (cases "truthy (userAssertion env)")
  case False
  then have "getAzureDevOpsToken m idp env = (Inl err_no_assertion, env, [obo_start_record m env])"
    using mode by (simp add: getAzureDevOpsToken_def oboFlow_no_assertion)
  then show ?thesis
    using False by (simp add: out_defs ConfigurationError_def start_record_kind)
next
  case True
  with missing have "\<not> truthy (envTenant m env) \<or> \<not> truthy (clientId env) \<or> \<not> truthy (clientSecret env)"
    by simp
  then have "getAzureDevOpsToken m idp env = (Inl err_obo_settings, env, [obo_start_record m env])"
    using mode True by (simp add: getAzureDevOpsToken_def oboFlow_missing_setting)
  then show ?thesis
    using True by (simp add: out_defs ConfigurationError_def start_record_kind)
qed

lemma authMode_no_assertion: "authMode env_obo_no_assertion = ''obo''"
  by (simp add: authMode_def env_obo_no_assertion_def or_string_def toLowerCase_def lower_char_def)

lemma authMode_no_tenant: "authMode env_obo_no_tenant = ''obo''"
  by (simp add: authMode_def env_obo_no_tenant_def or_string_def toLowerCase_def lower_char_def)

text \<open>C4 at an environment without the assertion and at one without a tenant id.\<close>
theorem obo_missing_setting_is_configuration_error_witness:
  "authMode env_obo_no_assertion = ''obo'' \<and> \<not> truthy (userAssertion env_obo_no_assertion) \<and>
   result_of (getAzureDevOpsToken contoso idp_ok env_obo_no_assertion) = Inl err_no_assertion \<and>
   ConfigurationError err_no_assertion \<and>
   \<not> list_ex network_call (trace_of (getAzureDevOpsToken contoso idp_ok env_obo_no_assertion)) \<and>
   authMode env_obo_no_tenant = ''obo'' \<and> truthy (userAssertion env_obo_no_tenant) \<and>
   \<not> truthy (envTenant contoso env_obo_no_tenant) \<and>
   result_of (getAzureDevOpsToken contoso idp_ok env_obo_no_tenant) = Inl err_obo_settings \<and>
   ConfigurationError err_obo_settings \<and>
   \<not> list_ex network_call (trace_of (getAzureDevOpsToken contoso idp_ok env_obo_no_tenant))"
proof -
  have a: "\<not> truthy (userAssertion env_obo_no_assertion)"
    by (simp add: userAssertion_def env_obo_no_assertion_def js_or_def truthy_def)
  have b: "truthy (userAssertion env_obo_no_tenant)"
    by (simp add: userAssertion_def env_obo_no_tenant_def js_or_def truthy_def)
  have c: "\<not> truthy (envTenant contoso env_obo_no_tenant)"
    by (simp add: envTenant_def env_obo_no_tenant_def contoso_def js_or_def truthy_def)
  show ?thesis
    using obo_missing_setting_is_configuration_error [of env_obo_no_assertion contoso idp_ok]
          obo_missing_setting_is_configuration_error [of env_obo_no_tenant contoso idp_ok]
          a b c authMode_no_assertion authMode_no_tenant
    by (simp add: ConfigurationError_def)
qed

subsection \<open>C1: the chain selector\<close>

lemma set_before_new_default:
  "set_before_new (tokenCredentials env) (trace_of (defaultFlow m idp env))"
  using defaultFlow_trace_cases [of m idp env] by auto

text \<open>
  C1, as amended. On the default path token resolution assigns
  \<^verbatim>\<open>AZURE_TOKEN_CREDENTIALS\<close> before it constructs any credential object: the value of
  \<^verbatim>\<open>ADO_MCP_AZURE_TOKEN_CREDENTIALS\<close> when that is a non-empty string, and \<^verbatim>\<open>dev\<close>
  otherwise. On the on-behalf-of path \<^verbatim>\<open>process.env\<close> is left as it was and the trace
  holds no such assignment.
\<close>
theorem selector_set_on_default_path:
  "(authMode env \<noteq> ''obo'' \<longrightarrow>
      set_before_new (tokenCredentials env) (trace_of (getAzureDevOpsToken m idp env)) \<and>
      env_of (getAzureDevOpsToken m idp env) ''AZURE_TOKEN_CREDENTIALS'' = Some (tokenCredentials env) \<and>
      (truthy (env ''ADO_MCP_AZURE_TOKEN_CREDENTIALS'') \<longrightarrow>
         Some (tokenCredentials env) = env ''ADO_MCP_AZURE_TOKEN_CREDENTIALS'') \<and>
      (\<not> truthy (env ''ADO_MCP_AZURE_TOKEN_CREDENTIALS'') \<longrightarrow> tokenCredentials env = ''dev'')) \<and>
   (authMode env = ''obo'' \<longrightarrow>
      env_of (getAzureDevOpsToken m idp env) = env \<and>
      \<not> set_before_new v (trace_of (getAzureDevOpsToken m idp env)))"
proof (cases "authMode env = ''obo''")
  case False
  then have g: "getAzureDevOpsToken m idp env = defaultFlow m idp env"
    by (simp add: getAzureDevOpsToken_def)
  have "truthy (env ''ADO_MCP_AZURE_TOKEN_CREDENTIALS'') \<longrightarrow>
          Some (tokenCredentials env) = env ''ADO_MCP_AZURE_TOKEN_CREDENTIALS''"
    by (simp add: tokenCredentials_def truthy_def split: option.split)
  moreover have "\<not> truthy (env ''ADO_MCP_AZURE_TOKEN_CREDENTIALS'') \<longrightarrow> tokenCredentials env = ''dev''"
    by (simp add: tokenCredentials_def truthy_def split: option.split)
  ultimately show ?thesis
    using False g set_before_new_default [of env m idp] by (simp add: defaultFlow_env)
next
  case True
  then have g: "getAzureDevOpsToken m idp env = oboFlow m idp env"
    by (simp add: getAzureDevOpsToken_def)
  have "\<not> set_before_new v (trace_of (oboFlow m idp env))"
    using oboFlow_trace_cases [of m idp env] obo_records_kind
    by (auto simp: obo_start_record_def obo_acquired_record_def)
  then show ?thesis using True g by (simp add: oboFlow_env)
qed

text \<open>The amended C1 at the empty environment and at an on-behalf-of environment.\<close>
theorem selector_set_on_default_path_witness:
  "authMode env_default \<noteq> ''obo'' \<and>
   set_before_new ''dev'' (trace_of (getAzureDevOpsToken contoso idp_ok env_default)) \<and>
   env_of (getAzureDevOpsToken contoso idp_ok env_default) ''AZURE_TOKEN_CREDENTIALS'' = Some ''dev'' \<and>
   authMode env_obo = ''obo'' \<and>
   env_of (getAzureDevOpsToken contoso idp_ok env_obo) = env_obo"
proof -
  have "tokenCredentials env_default = ''dev''"
    by (simp add: tokenCredentials_def env_default_def)
  then show ?thesis
    using selector_set_on_default_path [of env_default contoso idp_ok]
          selector_set_on_default_path [of env_obo contoso idp_ok]
    by (simp add: authMode_env_obo authMode_env_default)
qed

text \<open>
  C1 as stated fails in on-behalf-of mode: with a complete configuration a credential
  object is constructed, no assignment of the selector comes before it, and
  \<^verbatim>\<open>AZURE_TOKEN_CREDENTIALS\<close> is still unset when the resolution returns.
\<close>
theorem selector_not_set_in_obo_mode_counterexample:
  "authMode env_obo = ''obo'' \<and>
   list_ex constructs_credential (trace_of (getAzureDevOpsToken contoso idp_ok env_obo)) \<and>
   \<not> set_before_new (tokenCredentials env_obo) (trace_of (getAzureDevOpsToken contoso idp_ok env_obo)) \<and>
   env_of (getAzureDevOpsToken contoso idp_ok env_obo) ''AZURE_TOKEN_CREDENTIALS'' = None"
  by (simp add: token_env_obo authMode_env_obo out_defs obo_start_record_def
      obo_acquired_record_def) (simp add: env_obo_def)

subsection \<open>C2: the diagnostic line of the on-behalf-of path\<close>

text \<open>
  C2. The claim wants presence flags only. The code writes the values themselves under the
  keys \<^verbatim>\<open>hasUserAssertion\<close>, \<^verbatim>\<open>hasTenant\<close>, \<^verbatim>\<open>hasClientId\<close> and
  \<^verbatim>\<open>hasClientSecret\<close>: at a complete on-behalf-of environment the first diagnostic
  line carries the user assertion and the client secret in clear.
\<close>
theorem obo_start_record_carries_secret_values:
  "hd (trace_of (getAzureDevOpsToken contoso idp_ok env_obo)) =
     ConsoleError ''[ADO][OBO] Starting OBO token acquisition''
       [(''hasUserAssertion'', JString ''user-jwt''),
        (''hasTenant'', JString ''t0''),
        (''hasClientId'', JString ''app''),
        (''hasClientSecret'', JString ''s3cret''),
        (''orgUrl'', JString ''https://dev.azure.com/contoso'')]"
  by (simp add: token_env_obo trace_of_def obo_start_record_def obo_settings_env_obo js_of_def)
     (simp add: contoso_def)

subsection \<open>C5: no token, no client\<close>

lemma token_network_calls:
  "length (filter network_call (trace_of (getAzureDevOpsToken m idp env))) \<le> 1"
proof (cases "authMode env = ''obo''")
  case True
  then show ?thesis
    using oboFlow_trace_cases [of m idp env]
    by (auto simp: getAzureDevOpsToken_def obo_start_record_def obo_acquired_record_def)
next
  case False
  have "filter network_call
          (snd (defaultCredential idp m (env(''AZURE_TOKEN_CREDENTIALS'' \<mapsto> tokenCredentials env)))) = []"
    unfolding filter_empty_conv using defaultCredential_events by blast
  then show ?thesis
    using False defaultFlow_trace_cases [of m idp env]
    by (auto simp: getAzureDevOpsToken_def)
qed

lemma token_no_client_event:
  "\<not> list_ex client_event (trace_of (getAzureDevOpsToken m idp env))"
  unfolding list_ex_iff using token_events by blast

lemma client_on_error:
  "result_of (getAzureDevOpsToken m idp env) = Inl e \<Longrightarrow>
     getAzureDevOpsClient m cx idp env = (Inl e, snd (getAzureDevOpsToken m idp env))"
  by (cases "getAzureDevOpsToken m idp env")
     (simp add: getAzureDevOpsClient_def result_of_def)

lemma client_on_token:
  "result_of (getAzureDevOpsToken m idp env) = Inr t \<Longrightarrow>
     env_of (getAzureDevOpsClient m cx idp env) = env_of (getAzureDevOpsToken m idp env) \<and>
     (\<exists>w r. result_of (getAzureDevOpsClient m cx idp env) = Inr w \<and> bearer_token w = token t \<and>
        (direct_bearer_client w \<longleftrightarrow>
           authMode (env_of (getAzureDevOpsToken m idp env)) = ''obo'' \<and> hasCreateWithBearerToken cx) \<and>
        trace_of (getAzureDevOpsClient m cx idp env) = trace_of (getAzureDevOpsToken m idp env) @ r \<and>
        filter network_call r = [] \<and>
        \<not> list_ex obo_path_event r \<and> \<not> list_ex default_path_event r \<and>
        logged_modes r = [authMode (env_of (getAzureDevOpsToken m idp env))])"
  by (cases "getAzureDevOpsToken m idp env")
     (simp add: getAzureDevOpsClient_def out_defs initialized_record_def)

lemma client_env: "env_of (getAzureDevOpsClient m cx idp env) = env_of (getAzureDevOpsToken m idp env)"
proof (cases "result_of (getAzureDevOpsToken m idp env)")
  case (Inl e)
  then show ?thesis using client_on_error [of m idp env e cx] by (simp add: env_of_def)
next
  case (Inr t)
  then show ?thesis using client_on_token [of m idp env t cx] by simp
qed

lemma default_GetToken:
  assumes "GetToken c s \<in> set (trace_of (defaultFlow m idp env))"
  shows "fst (defaultCredential idp m (env(''AZURE_TOKEN_CREDENTIALS'' \<mapsto> tokenCredentials env))) = Inr c \<and>
         s = scope"
proof -
  from defaultFlow_trace_cases [of m idp env] obtain r where
    tr: "trace_of (defaultFlow m idp env) =
           SetEnv ''AZURE_TOKEN_CREDENTIALS'' (tokenCredentials env) #
           snd (defaultCredential idp m (env(''AZURE_TOKEN_CREDENTIALS'' \<mapsto> tokenCredentials env))) @ r"
    and r: "r = [] \<or>
        (\<exists>c. fst (defaultCredential idp m (env(''AZURE_TOKEN_CREDENTIALS'' \<mapsto> tokenCredentials env))) = Inr c \<and>
             r = [GetToken c scope])"
    by blast
  have "GetToken c s \<notin>
          set (snd (defaultCredential idp m (env(''AZURE_TOKEN_CREDENTIALS'' \<mapsto> tokenCredentials env))))"
    using defaultCredential_events [of "GetToken c s"] by auto
  with assms tr have "GetToken c s \<in> set r"
    by auto
  with r show ?thesis
    by auto
qed

lemma token_result_by_provider:
  "GetToken c s \<in> set (trace_of (getAzureDevOpsToken m idp env)) \<Longrightarrow>
     s = scope \<and>
     result_of (getAzureDevOpsToken m idp env) =
       (case getToken idp (env_of (getAzureDevOpsToken m idp env)) c s of
          Rejects e \<Rightarrow> Inl e
        | Resolves None \<Rightarrow> Inl (if is_obo_credential c then err_obo_no_token else err_no_token)
        | Resolves (Some t) \<Rightarrow> Inr t)"
proof (cases "authMode env = ''obo''")
  case True
  assume "GetToken c s \<in> set (trace_of (getAzureDevOpsToken m idp env))"
  then show ?thesis
    using True
    by (auto simp: getAzureDevOpsToken_def oboFlow_def out_defs Let_def obo_start_record_def
        obo_acquired_record_def split: if_splits getToken_result.splits option.splits)
next
  case False
  assume "GetToken c s \<in> set (trace_of (getAzureDevOpsToken m idp env))"
  with False have "GetToken c s \<in> set (trace_of (defaultFlow m idp env))"
    by (simp add: getAzureDevOpsToken_def)
  then have c: "fst (defaultCredential idp m (env(''AZURE_TOKEN_CREDENTIALS'' \<mapsto> tokenCredentials env))) = Inr c"
    and s: "s = scope"
    using default_GetToken by blast+
  from defaultFlow_built [OF c] defaultCredential_not_obo [OF c] False s show ?thesis
    by (simp add: getAzureDevOpsToken_def out_defs split: getToken_result.splits option.splits)
qed

lemma client_trace_GetToken:
  "GetToken c s \<in> set (trace_of (getAzureDevOpsClient m cx idp env)) \<Longrightarrow>
   GetToken c s \<in> set (trace_of (getAzureDevOpsToken m idp env))"
proof (cases "result_of (getAzureDevOpsToken m idp env)")
  case (Inl e)
  assume "GetToken c s \<in> set (trace_of (getAzureDevOpsClient m cx idp env))"
  then show ?thesis using client_on_error [OF Inl, of cx] by (simp add: trace_of_def)
next
  case (Inr t)
  assume a: "GetToken c s \<in> set (trace_of (getAzureDevOpsClient m cx idp env))"
  from client_on_token [OF Inr, of cx] obtain r where
    r: "trace_of (getAzureDevOpsClient m cx idp env) = trace_of (getAzureDevOpsToken m idp env) @ r"
       "filter network_call r = []" by blast
  from r(2) have "GetToken c s \<notin> set r"
    by (metis filter_empty_conv network_call.simps(1))
  with a r(1) show ?thesis by simp
qed

text \<open>
  C5. When the \<^verbatim>\<open>getToken\<close> call of a client construction returns no token, in either
  mode, the construction fails with an authentication error and no call that builds a
  client is made. A client construction makes at most one \<^verbatim>\<open>getToken\<close> call (no
  retry), and an error of token resolution is the error of the client construction, with
  nothing done after it.
\<close>
theorem no_token_fails_client_construction:
  "(GetToken c s \<in> set (trace_of (getAzureDevOpsClient m cx idp env)) \<and>
    getToken idp (env_of (getAzureDevOpsClient m cx idp env)) c s = Resolves None \<longrightarrow>
      (\<exists>e. result_of (getAzureDevOpsClient m cx idp env) = Inl e \<and> AuthenticationError e) \<and>
      \<not> list_ex client_event (trace_of (getAzureDevOpsClient m cx idp env))) \<and>
   length (filter network_call (trace_of (getAzureDevOpsClient m cx idp env))) \<le> 1 \<and>
   (result_of (getAzureDevOpsToken m idp env) = Inl e' \<longrightarrow>
      result_of (getAzureDevOpsClient m cx idp env) = Inl e' \<and>
      trace_of (getAzureDevOpsClient m cx idp env) = trace_of (getAzureDevOpsToken m idp env))"
proof -
  have retry: "length (filter network_call (trace_of (getAzureDevOpsClient m cx idp env))) \<le> 1"
  proof (cases "result_of (getAzureDevOpsToken m idp env)")
    case (Inl e)
    then show ?thesis
      using client_on_error [OF Inl, of cx] token_network_calls [of m idp env]
      by (simp add: trace_of_def)
  next
    case (Inr t)
    then show ?thesis
      using client_on_token [OF Inr, of cx] token_network_calls [of m idp env] by auto
  qed
  have keep: "result_of (getAzureDevOpsToken m idp env) = Inl e' \<longrightarrow>
      result_of (getAzureDevOpsClient m cx idp env) = Inl e' \<and>
      trace_of (getAzureDevOpsClient m cx idp env) = trace_of (getAzureDevOpsToken m idp env)"
    using client_on_error [of m idp env e' cx] by (simp add: out_defs)
  have none: "(\<exists>e. result_of (getAzureDevOpsClient m cx idp env) = Inl e \<and> AuthenticationError e) \<and>
      \<not> list_ex client_event (trace_of (getAzureDevOpsClient m cx idp env))"
    if g: "GetToken c s \<in> set (trace_of (getAzureDevOpsClient m cx idp env))"
      and n: "getToken idp (env_of (getAzureDevOpsClient m cx idp env)) c s = Resolves None"
  proof -
    from g have g': "GetToken c s \<in> set (trace_of (getAzureDevOpsToken m idp env))"
      by (rule client_trace_GetToken)
    from n have n': "getToken idp (env_of (getAzureDevOpsToken m idp env)) c s = Resolves None"
      by (simp add: client_env)
    from token_result_by_provider [OF g'] n'
    have r: "result_of (getAzureDevOpsToken m idp env) =
               Inl (if is_obo_credential c then err_obo_no_token else err_no_token)"
      by simp
    from client_on_error [OF r, of cx] token_no_client_event [of m idp env]
    show ?thesis
      by (simp add: out_defs AuthenticationError_def)
  qed
  from retry keep none show ?thesis by blast
qed

lemma defaultCredential_contoso_none:
  "defaultCredential idp_none contoso e = (Inr DefaultAzureCredential, [New DefaultAzureCredential])"
  by (simp add: defaultCredential_def idp_none_def contoso_def truthy_def)

lemma token_default_none:
  "getAzureDevOpsToken contoso idp_none env_default =
     (Inl err_no_token, env_default(''AZURE_TOKEN_CREDENTIALS'' \<mapsto> ''dev''),
      [SetEnv ''AZURE_TOKEN_CREDENTIALS'' ''dev'', New DefaultAzureCredential,
       GetToken DefaultAzureCredential scope])"
  by (simp add: getAzureDevOpsToken_def authMode_env_default defaultFlow_def
      defaultCredential_contoso_none Let_def tokenCredentials_env_default)
     (simp add: idp_none_def)

lemma client_default_none:
  "getAzureDevOpsClient contoso cx0 idp_none env_default =
     (Inl err_no_token, env_default(''AZURE_TOKEN_CREDENTIALS'' \<mapsto> ''dev''),
      [SetEnv ''AZURE_TOKEN_CREDENTIALS'' ''dev'', New DefaultAzureCredential,
       GetToken DefaultAzureCredential scope])"
  by (simp add: getAzureDevOpsClient_def token_default_none)

text \<open>C5 on the default path with a provider that returns nothing.\<close>
theorem no_token_fails_client_construction_witness:
  "GetToken DefaultAzureCredential scope \<in> set (trace_of (getAzureDevOpsClient contoso cx0 idp_none env_default)) \<and>
   getToken idp_none (env_of (getAzureDevOpsClient contoso cx0 idp_none env_default)) DefaultAzureCredential scope = Resolves None \<and>
   result_of (getAzureDevOpsClient contoso cx0 idp_none env_default) = Inl err_no_token \<and>
   AuthenticationError err_no_token \<and>
   \<not> list_ex client_event (trace_of (getAzureDevOpsClient contoso cx0 idp_none env_default)) \<and>
   result_of (getAzureDevOpsToken contoso idp_none env_default) = Inl err_no_token"
proof -
  have g: "GetToken DefaultAzureCredential scope
             \<in> set (trace_of (getAzureDevOpsClient contoso cx0 idp_none env_default))"
    by (simp add: client_default_none trace_of_def)
  have n: "getToken idp_none (env_of (getAzureDevOpsClient contoso cx0 idp_none env_default))
             DefaultAzureCredential scope = Resolves None"
    by (simp add: idp_none_def)
  have r: "result_of (getAzureDevOpsClient contoso cx0 idp_none env_default) = Inl err_no_token"
    by (simp add: client_default_none result_of_def)
  have a: "AuthenticationError err_no_token"
    by (simp add: AuthenticationError_def)
  have t: "result_of (getAzureDevOpsToken contoso idp_none env_default) = Inl err_no_token"
    by (simp add: token_default_none result_of_def)
  from g n no_token_fails_client_construction
    [of DefaultAzureCredential scope contoso cx0 idp_none env_default err_no_token]
  have "\<not> list_ex client_event (trace_of (getAzureDevOpsClient contoso cx0 idp_none env_default))"
    by blast
  with g n r a t show ?thesis
    by blast
qed

subsection \<open>C6: the token of the client\<close>

lemma token_success_by_provider:
  "result_of (getAzureDevOpsToken m idp env) = Inr t \<Longrightarrow>
     \<exists>c. GetToken c scope \<in> set (trace_of (getAzureDevOpsToken m idp env)) \<and>
         getToken idp (env_of (getAzureDevOpsToken m idp env)) c scope = Resolves (Some t)"
proof (cases "authMode env = ''obo''")
  case True
  assume "result_of (getAzureDevOpsToken m idp env) = Inr t"
  then show ?thesis
    using True
    by (auto simp: getAzureDevOpsToken_def oboFlow_def out_defs Let_def
        split: if_splits getToken_result.splits option.splits)
next
  case False
  assume "result_of (getAzureDevOpsToken m idp env) = Inr t"
  then show ?thesis
    using False
    by (auto simp: getAzureDevOpsToken_def defaultFlow_def out_defs Let_def
        split: sum.splits getToken_result.splits option.splits)
qed

text \<open>
  C6, as amended. On every successful client construction the string handed to the
  client constructor is the \<^verbatim>\<open>token\<close> field of the access token that the token
  resolution of that same call returned, and that access token is what the
  \<^verbatim>\<open>getToken\<close> call recorded in the trace of the call answered. The string itself is
  not checked.
\<close>
theorem client_token_is_resolved_token:
  assumes ok: "result_of (getAzureDevOpsClient m cx idp env) = Inr w"
  shows "\<exists>t c. result_of (getAzureDevOpsToken m idp env) = Inr t \<and>
           bearer_token w = token t \<and>
           GetToken c scope \<in> set (trace_of (getAzureDevOpsClient m cx idp env)) \<and>
           getToken idp (env_of (getAzureDevOpsClient m cx idp env)) c scope = Resolves (Some t)"
proof (cases "result_of (getAzureDevOpsToken m idp env)")
  case (Inl e)
  from client_on_error [OF Inl, of cx] ok show ?thesis
    by (simp add: result_of_def)
next
  case (Inr t)
  from client_on_token [OF Inr, of cx] ok obtain r where
    w: "bearer_token w = token t" and
    tr: "trace_of (getAzureDevOpsClient m cx idp env) = trace_of (getAzureDevOpsToken m idp env) @ r"
    by auto
  from token_success_by_provider [OF Inr] obtain c where
    c: "GetToken c scope \<in> set (trace_of (getAzureDevOpsToken m idp env))"
       "getToken idp (env_of (getAzureDevOpsToken m idp env)) c scope = Resolves (Some t)"
    by blast
  from c tr have "GetToken c scope \<in> set (trace_of (getAzureDevOpsClient m cx idp env))"
    by simp
  with Inr w c(2) show ?thesis
    by (auto simp: client_env)
qed

lemma defaultCredential_contoso_empty:
  "defaultCredential idp_empty contoso e = (Inr DefaultAzureCredential, [New DefaultAzureCredential])"
  by (simp add: defaultCredential_def idp_empty_def contoso_def truthy_def)

lemma token_default_empty:
  "getAzureDevOpsToken contoso idp_empty env_default =
     (Inr empty_tok, env_default(''AZURE_TOKEN_CREDENTIALS'' \<mapsto> ''dev''),
      [SetEnv ''AZURE_TOKEN_CREDENTIALS'' ''dev'', New DefaultAzureCredential,
       GetToken DefaultAzureCredential scope])"
  by (simp add: getAzureDevOpsToken_def authMode_env_default defaultFlow_def
      defaultCredential_contoso_empty Let_def tokenCredentials_env_default)
     (simp add: idp_empty_def)

lemma authMode_after_default: "authMode (env_default(''AZURE_TOKEN_CREDENTIALS'' \<mapsto> v)) = []"
  by (simp add: authMode_def env_default_def or_string_def toLowerCase_def)

lemma client_default_empty:
  "getAzureDevOpsClient contoso cx0 idp_empty env_default =
     (Inr (NewWebApi ''https://dev.azure.com/contoso'' (BearerHandler []) (client_options cx0)),
      env_default(''AZURE_TOKEN_CREDENTIALS'' \<mapsto> ''dev''),
      [SetEnv ''AZURE_TOKEN_CREDENTIALS'' ''dev'', New DefaultAzureCredential,
       GetToken DefaultAzureCredential scope,
       Call_getBearerHandler [],
       Call_new_WebApi ''https://dev.azure.com/contoso'' (BearerHandler []),
       initialized_record contoso []])"
  by (simp add: getAzureDevOpsClient_def token_default_empty authMode_after_default
      empty_tok_def) (simp add: contoso_def)

text \<open>
  C6 as stated fails: when the provider answers with an access token whose \<^verbatim>\<open>token\<close>
  field is the empty string, the client is built with the empty string.
\<close>
theorem client_built_with_empty_token_counterexample:
  "result_of (getAzureDevOpsClient contoso cx0 idp_empty env_default) =
     Inr (NewWebApi ''https://dev.azure.com/contoso'' (BearerHandler []) (client_options cx0)) \<and>
   bearer_token (NewWebApi ''https://dev.azure.com/contoso'' (BearerHandler []) (client_options cx0)) = []"
  by (simp add: client_default_empty result_of_def)

text \<open>The amended C6 at that same call.\<close>
theorem client_token_is_resolved_token_witness:
  "result_of (getAzureDevOpsClient contoso cx0 idp_empty env_default) =
     Inr (NewWebApi ''https://dev.azure.com/contoso'' (BearerHandler []) (client_options cx0)) \<and>
   result_of (getAzureDevOpsToken contoso idp_empty env_default) = Inr empty_tok \<and>
   GetToken DefaultAzureCredential scope \<in> set (trace_of (getAzureDevOpsClient contoso cx0 idp_empty env_default))"
proof -
  have ok: "result_of (getAzureDevOpsClient contoso cx0 idp_empty env_default) =
     Inr (NewWebApi ''https://dev.azure.com/contoso'' (BearerHandler []) (client_options cx0))"
    by (simp add: client_default_empty result_of_def)
  from client_token_is_resolved_token [OF ok] ok show ?thesis
    by (simp add: client_default_empty token_default_empty out_defs)
qed

subsection \<open>C7: the mode over the life of a process\<close>

lemma authMode_cong: "env1 ''ADO_AUTH'' = env2 ''ADO_AUTH'' \<Longrightarrow> authMode env1 = authMode env2"
  by (simp add: authMode_def)

lemma token_keeps_ADO_AUTH:
  "env_of (getAzureDevOpsToken m idp env) ''ADO_AUTH'' = env ''ADO_AUTH''"
  by (simp add: getAzureDevOpsToken_def oboFlow_env defaultFlow_env)

lemma token_keeps_authMode: "authMode (env_of (getAzureDevOpsToken m idp env)) = authMode env"
  by (rule authMode_cong) (rule token_keeps_ADO_AUTH)

lemma client_keeps_authMode: "authMode (env_of (getAzureDevOpsClient m cx idp env)) = authMode env"
  by (simp add: client_env token_keeps_authMode)

lemma assign_other_keeps_authMode: "k \<noteq> ''ADO_AUTH'' \<Longrightarrow> authMode (env(k \<mapsto> v)) = authMode env"
  by (rule authMode_cong) simp

lemma logged_modes_append: "logged_modes (xs @ ys) = logged_modes xs @ logged_modes ys"
  by (induction xs) (simp_all split: option.split)

lemma logged_modes_none: "(\<And>e. e \<in> set tr \<Longrightarrow> logged_mode e = None) \<Longrightarrow> logged_modes tr = []"
  by (induction tr) simp_all

lemma token_logs_no_mode: "logged_modes (trace_of (getAzureDevOpsToken m idp env)) = []"
  by (rule logged_modes_none) (simp add: token_events)

lemma token_shows_mode:
  "(list_ex obo_path_event (trace_of (getAzureDevOpsToken m idp env)) \<longleftrightarrow> authMode env = ''obo'') \<and>
   (list_ex default_path_event (trace_of (getAzureDevOpsToken m idp env)) \<longleftrightarrow> authMode env \<noteq> ''obo'')"
proof -
  from token_trace_nonempty [of m idp env] obtain e where
    "e \<in> set (trace_of (getAzureDevOpsToken m idp env))"
    by (cases "trace_of (getAzureDevOpsToken m idp env)") auto
  then show ?thesis
    unfolding list_ex_iff using token_events [of _ m idp env] by blast
qed

lemma client_shows_mode:
  "(list_ex obo_path_event (trace_of (getAzureDevOpsClient m cx idp env)) \<longleftrightarrow> authMode env = ''obo'') \<and>
   (list_ex default_path_event (trace_of (getAzureDevOpsClient m cx idp env)) \<longleftrightarrow> authMode env \<noteq> ''obo'') \<and>
   set (logged_modes (trace_of (getAzureDevOpsClient m cx idp env))) \<subseteq> {authMode env}"
proof (cases "result_of (getAzureDevOpsToken m idp env)")
  case (Inl e)
  from client_on_error [OF Inl, of cx] have
    "trace_of (getAzureDevOpsClient m cx idp env) = trace_of (getAzureDevOpsToken m idp env)"
    by (simp add: trace_of_def)
  then show ?thesis
    using token_shows_mode [of m idp env] by (simp add: token_logs_no_mode)
next
  case (Inr t)
  from client_on_token [OF Inr, of cx] obtain r where
    tr: "trace_of (getAzureDevOpsClient m cx idp env) = trace_of (getAzureDevOpsToken m idp env) @ r"
    and r: "\<not> list_ex obo_path_event r" "\<not> list_ex default_path_event r"
      "logged_modes r = [authMode (env_of (getAzureDevOpsToken m idp env))]"
    by blast
  from tr r show ?thesis
    using token_shows_mode [of m idp env]
    by (simp add: list_ex_append logged_modes_append token_logs_no_mode token_keeps_authMode)
qed

lemma run_shows_mode:
  "\<not> list_ex assigns_ADO_AUTH ops \<Longrightarrow> tr \<in> set (run m cx idp ops env) \<Longrightarrow>
     (list_ex obo_path_event tr \<longleftrightarrow> authMode env = ''obo'') \<and>
     (list_ex default_path_event tr \<longleftrightarrow> authMode env \<noteq> ''obo'') \<and>
     set (logged_modes tr) \<subseteq> {authMode env}"
proof (induction ops arbitrary: env)
  case Nil
  then show ?case by simp
next
  case (Cons op ops)
  from Cons.prems have rest: "\<not> list_ex assigns_ADO_AUTH ops"
    by simp
  show ?case
  proof (cases op)
    case ResolveToken
    with Cons.prems have
      "tr = trace_of (getAzureDevOpsToken m idp env) \<or>
       tr \<in> set (run m cx idp ops (env_of (getAzureDevOpsToken m idp env)))"
      by auto
    then show ?thesis
    proof
      assume "tr = trace_of (getAzureDevOpsToken m idp env)"
      then show ?thesis
        using token_shows_mode [of m idp env] by (simp add: token_logs_no_mode)
    next
      assume "tr \<in> set (run m cx idp ops (env_of (getAzureDevOpsToken m idp env)))"
      from Cons.IH [OF rest this] show ?thesis
        by (simp add: token_keeps_authMode)
    qed
  next
    case BuildClient
    with Cons.prems have
      "tr = trace_of (getAzureDevOpsClient m cx idp env) \<or>
       tr \<in> set (run m cx idp ops (env_of (getAzureDevOpsClient m cx idp env)))"
      by auto
    then show ?thesis
    proof
      assume "tr = trace_of (getAzureDevOpsClient m cx idp env)"
      then show ?thesis
        using client_shows_mode [of m cx idp env] by simp
    next
      assume "tr \<in> set (run m cx idp ops (env_of (getAzureDevOpsClient m cx idp env)))"
      from Cons.IH [OF rest this] show ?thesis
        by (simp add: client_keeps_authMode)
    qed
  next
    case (AssignEnv k v)
    with Cons.prems have k: "k \<noteq> ''ADO_AUTH''" and
      mem: "tr \<in> set (run m cx idp ops (env(k \<mapsto> v)))"
      by auto
    from mem have
      "(list_ex obo_path_event tr \<longleftrightarrow> authMode (env(k \<mapsto> v)) = ''obo'') \<and>
       (list_ex default_path_event tr \<longleftrightarrow> authMode (env(k \<mapsto> v)) \<noteq> ''obo'') \<and>
       set (logged_modes tr) \<subseteq> {authMode (env(k \<mapsto> v))}"
      by (rule Cons.IH [OF rest])
    with k show ?thesis
      by (simp add: assign_other_keeps_authMode)
  qed
qed

text \<open>
  C7, as amended. The mode is computed from \<^verbatim>\<open>ADO_AUTH\<close> anew in every token resolution
  and in every client construction. Neither operation assigns \<^verbatim>\<open>ADO_AUTH\<close>, so that in
  a process in which no other code assigns \<^verbatim>\<open>ADO_AUTH\<close> every operation shows the mode
  that the environment of the first one gives: its token resolution takes the
  on-behalf-of path exactly when that mode is \<^verbatim>\<open>obo\<close> and the default path exactly when
  it is not, and a client construction writes that mode in its diagnostic line.
\<close>
theorem authMode_stable_while_flag_unchanged:
  assumes "\<not> list_ex assigns_ADO_AUTH ops" and "tr \<in> set (run m cx idp ops env)"
  shows "(list_ex obo_path_event tr \<longleftrightarrow> authMode env = ''obo'') \<and>
         (list_ex default_path_event tr \<longleftrightarrow> authMode env \<noteq> ''obo'') \<and>
         set (logged_modes tr) \<subseteq> {authMode env} \<and>
         env_of (getAzureDevOpsToken m idp env) ''ADO_AUTH'' = env ''ADO_AUTH'' \<and>
         env_of (getAzureDevOpsClient m cx idp env) ''ADO_AUTH'' = env ''ADO_AUTH''"
  using run_shows_mode [OF assms]
  by (simp add: token_keeps_ADO_AUTH client_env)

lemma client_env_obo_full:
  "getAzureDevOpsClient contoso cx0 idp_ok env_obo =
     (Inr (CreatedWithBearerToken ''https://dev.azure.com/contoso'' ''tok'' (client_options cx0)),
      env_obo,
      [obo_start_record contoso env_obo,
       New (OnBehalfOfCredential (Some ''t0'') (Some ''app'') (Some ''s3cret'') (Some ''user-jwt'')),
       GetToken (OnBehalfOfCredential (Some ''t0'') (Some ''app'') (Some ''s3cret'') (Some ''user-jwt'')) scope,
       obo_acquired_record (Some tok0),
       Call_createWithBearerToken ''https://dev.azure.com/contoso'' ''tok'',
       initialized_record contoso ''obo''])"
  by (simp add: getAzureDevOpsClient_def token_env_obo authMode_env_obo)
     (simp add: cx0_def contoso_def tok0_def)

text \<open>
  The amended C7 on a process that resolves a token, assigns another variable and builds
  a client: the client construction runs the on-behalf-of path and logs \<^verbatim>\<open>obo\<close>.
\<close>
theorem authMode_stable_while_flag_unchanged_witness:
  "\<not> list_ex assigns_ADO_AUTH [ResolveToken, AssignEnv ''AZURE_CLIENT_ID'' ''app'', BuildClient] \<and>
   trace_of (getAzureDevOpsClient contoso cx0 idp_ok env_obo)
     \<in> set (run contoso cx0 idp_ok [ResolveToken, AssignEnv ''AZURE_CLIENT_ID'' ''app'', BuildClient] env_obo) \<and>
   authMode env_obo = ''obo'' \<and>
   list_ex obo_path_event (trace_of (getAzureDevOpsClient contoso cx0 idp_ok env_obo)) \<and>
   \<not> list_ex default_path_event (trace_of (getAzureDevOpsClient contoso cx0 idp_ok env_obo)) \<and>
   logged_modes (trace_of (getAzureDevOpsClient contoso cx0 idp_ok env_obo)) = [''obo'']"
proof -
  have h: "\<not> list_ex assigns_ADO_AUTH [ResolveToken, AssignEnv ''AZURE_CLIENT_ID'' ''app'', BuildClient]"
    by simp
  have same: "env_obo(''AZURE_CLIENT_ID'' \<mapsto> ''app'') = env_obo"
    by (rule ext) (simp add: env_obo_def)
  have mem: "trace_of (getAzureDevOpsClient contoso cx0 idp_ok env_obo)
     \<in> set (run contoso cx0 idp_ok [ResolveToken, AssignEnv ''AZURE_CLIENT_ID'' ''app'', BuildClient] env_obo)"
    by (simp add: token_env_obo env_of_def same)
  have l: "logged_modes (trace_of (getAzureDevOpsClient contoso cx0 idp_ok env_obo)) = [''obo'']"
    by (simp add: client_env_obo_full trace_of_def obo_records_kind initialized_record_def)
  from authMode_stable_while_flag_unchanged [OF h mem] authMode_env_obo have
    "list_ex obo_path_event (trace_of (getAzureDevOpsClient contoso cx0 idp_ok env_obo)) \<and>
     \<not> list_ex default_path_event (trace_of (getAzureDevOpsClient contoso cx0 idp_ok env_obo))"
    by blast
  with h mem l authMode_env_obo show ?thesis
    by blast
qed

lemma authMode_env_obo_settings: "authMode env_obo_settings = []"
  by (simp add: authMode_def env_obo_settings_def or_string_def toLowerCase_def)

lemma tokenCredentials_env_obo_settings: "tokenCredentials env_obo_settings = ''dev''"
  by (simp add: tokenCredentials_def env_obo_settings_def)

lemma client_before_flag:
  "getAzureDevOpsClient contoso cx0 idp_ok env_obo_settings =
     (Inr (NewWebApi ''https://dev.azure.com/contoso'' (BearerHandler ''tok'') (client_options cx0)),
      env_obo_settings(''AZURE_TOKEN_CREDENTIALS'' \<mapsto> ''dev''),
      [SetEnv ''AZURE_TOKEN_CREDENTIALS'' ''dev'', New DefaultAzureCredential,
       GetToken DefaultAzureCredential scope,
       Call_getBearerHandler ''tok'',
       Call_new_WebApi ''https://dev.azure.com/contoso'' (BearerHandler ''tok''),
       initialized_record contoso []])"
proof -
  have t: "getAzureDevOpsToken contoso idp_ok env_obo_settings =
     (Inr tok0, env_obo_settings(''AZURE_TOKEN_CREDENTIALS'' \<mapsto> ''dev''),
      [SetEnv ''AZURE_TOKEN_CREDENTIALS'' ''dev'', New DefaultAzureCredential,
       GetToken DefaultAzureCredential scope])"
    by (simp add: getAzureDevOpsToken_def authMode_env_obo_settings defaultFlow_def
        defaultCredential_contoso_ok Let_def tokenCredentials_env_obo_settings)
       (simp add: idp_ok_def)
  have a: "authMode (env_obo_settings(''AZURE_TOKEN_CREDENTIALS'' \<mapsto> ''dev'')) = []"
    using assign_other_keeps_authMode [of "''AZURE_TOKEN_CREDENTIALS''" env_obo_settings "''dev''"]
    by (simp add: authMode_env_obo_settings)
  show ?thesis
    by (simp add: getAzureDevOpsClient_def t a) (simp add: contoso_def tok0_def)
qed

lemma authMode_env_flag_assigned: "authMode env_flag_assigned = ''obo''"
  by (simp add: authMode_def env_flag_assigned_def or_string_def toLowerCase_def lower_char_def)

lemma obo_settings_env_flag_assigned:
  "userAssertion env_flag_assigned = Some ''user-jwt'' \<and>
   envTenant contoso env_flag_assigned = Some ''t0'' \<and>
   clientId env_flag_assigned = Some ''app'' \<and> clientSecret env_flag_assigned = Some ''s3cret''"
  by (simp add: userAssertion_def envTenant_def clientId_def clientSecret_def
      env_flag_assigned_def env_obo_settings_def contoso_def js_or_def truthy_def)

lemma client_after_flag:
  "getAzureDevOpsClient contoso cx0 idp_ok env_flag_assigned =
     (Inr (CreatedWithBearerToken ''https://dev.azure.com/contoso'' ''tok'' (client_options cx0)),
      env_flag_assigned,
      [obo_start_record contoso env_flag_assigned,
       New (OnBehalfOfCredential (Some ''t0'') (Some ''app'') (Some ''s3cret'') (Some ''user-jwt'')),
       GetToken (OnBehalfOfCredential (Some ''t0'') (Some ''app'') (Some ''s3cret'') (Some ''user-jwt'')) scope,
       obo_acquired_record (Some tok0),
       Call_createWithBearerToken ''https://dev.azure.com/contoso'' ''tok'',
       initialized_record contoso ''obo''])"
proof -
  have t: "getAzureDevOpsToken contoso idp_ok env_flag_assigned =
     (Inr tok0, env_flag_assigned,
      [obo_start_record contoso env_flag_assigned,
       New (OnBehalfOfCredential (Some ''t0'') (Some ''app'') (Some ''s3cret'') (Some ''user-jwt'')),
       GetToken (OnBehalfOfCredential (Some ''t0'') (Some ''app'') (Some ''s3cret'') (Some ''user-jwt'')) scope,
       obo_acquired_record (Some tok0)])"
    by (simp add: getAzureDevOpsToken_def authMode_env_flag_assigned oboFlow_def
        obo_settings_env_flag_assigned truthy_def idp_ok_def Let_def)
  show ?thesis
    by (simp add: getAzureDevOpsClient_def t authMode_env_flag_assigned)
       (simp add: cx0_def contoso_def tok0_def)
qed

lemma run_with_flag_assigned:
  "run contoso cx0 idp_ok [BuildClient, AssignEnv ''ADO_AUTH'' ''obo'', BuildClient] env_obo_settings =
     [trace_of (getAzureDevOpsClient contoso cx0 idp_ok env_obo_settings),
      trace_of (getAzureDevOpsClient contoso cx0 idp_ok env_flag_assigned)]"
  by (simp add: client_before_flag env_of_def env_flag_assigned_def)

text \<open>
  C7 as stated fails: a process builds a client, \<^verbatim>\<open>ADO_AUTH\<close> is assigned, and the
  process builds a client again. The first construction takes the default path and logs
  the empty mode; the second takes the on-behalf-of path and logs \<^verbatim>\<open>obo\<close>.
\<close>
theorem authMode_changes_with_flag_counterexample:
  "logged_modes (concat (run contoso cx0 idp_ok
     [BuildClient, AssignEnv ''ADO_AUTH'' ''obo'', BuildClient] env_obo_settings)) = [[], ''obo''] \<and>
   \<not> all_equal (logged_modes (concat (run contoso cx0 idp_ok
     [BuildClient, AssignEnv ''ADO_AUTH'' ''obo'', BuildClient] env_obo_settings))) \<and>
   map (list_ex obo_path_event) (run contoso cx0 idp_ok
     [BuildClient, AssignEnv ''ADO_AUTH'' ''obo'', BuildClient] env_obo_settings) = [False, True]"
  by (simp only: run_with_flag_assigned)
     (simp add: client_before_flag client_after_flag trace_of_def obo_records_kind
       initialized_record_def)

subsection \<open>C8: the order of the default chain\<close>

text \<open>
  C8. On the default path the only credential asked for a token is the one that lines
  85-90 build, and when they build it, it is asked last. With a tenant id it is a chain
  of the CLI credential of that tenant followed by the ambient default credential, the
  entries are tried in that order, and the ambient credential is tried only when the CLI
  credential gave no token. Without a tenant id it is the ambient default credential
  alone.
\<close>
theorem default_chain_order:
  "(authMode env \<noteq> ''obo'' \<and> GetToken c' s \<in> set (trace_of (getAzureDevOpsToken m idp env)) \<longrightarrow>
      fst (defaultCredential idp m (env_of (getAzureDevOpsToken m idp env))) = Inr c' \<and> s = scope) \<and>
   (authMode env \<noteq> ''obo'' \<and>
    fst (defaultCredential idp m (env_of (getAzureDevOpsToken m idp env))) = Inr c \<longrightarrow>
      last (trace_of (getAzureDevOpsToken m idp env)) = GetToken c scope) \<and>
   (truthy (tenantId m) \<and> fst (defaultCredential idp m e) = Inr c \<longrightarrow>
      c = ChainedTokenCredential [AzureCliCredential (tenantId m), DefaultAzureCredential] \<and>
      snd (defaultCredential idp m e) =
        [New DefaultAzureCredential, New (AzureCliCredential (tenantId m)), New c] \<and>
      sources c = [AzureCliCredential (tenantId m), DefaultAzureCredential] \<and>
      chain_attempts entry (sources c) =
        (if \<exists>t. entry (AzureCliCredential (tenantId m)) = Resolves (Some t)
         then [AzureCliCredential (tenantId m)]
         else [AzureCliCredential (tenantId m), DefaultAzureCredential])) \<and>
   (\<not> truthy (tenantId m) \<and> fst (defaultCredential idp m e) = Inr c \<longrightarrow>
      c = DefaultAzureCredential \<and>
      snd (defaultCredential idp m e) = [New DefaultAzureCredential] \<and>
      sources c = [DefaultAzureCredential] \<and>
      chain_attempts entry (sources c) = [DefaultAzureCredential])"
proof -
  have a: "authMode env \<noteq> ''obo'' \<and> GetToken c' s \<in> set (trace_of (getAzureDevOpsToken m idp env)) \<longrightarrow>
      fst (defaultCredential idp m (env_of (getAzureDevOpsToken m idp env))) = Inr c' \<and> s = scope"
    using default_GetToken [of c' s m idp env]
    by (simp add: getAzureDevOpsToken_def defaultFlow_env)
  have b: "authMode env \<noteq> ''obo'' \<and>
    fst (defaultCredential idp m (env_of (getAzureDevOpsToken m idp env))) = Inr c \<longrightarrow>
      last (trace_of (getAzureDevOpsToken m idp env)) = GetToken c scope"
    using defaultFlow_built [of idp m env c]
    by (simp add: getAzureDevOpsToken_def defaultFlow_env trace_of_def)
  have c: "truthy (tenantId m) \<and> fst (defaultCredential idp m e) = Inr c \<longrightarrow>
      c = ChainedTokenCredential [AzureCliCredential (tenantId m), DefaultAzureCredential] \<and>
      snd (defaultCredential idp m e) =
        [New DefaultAzureCredential, New (AzureCliCredential (tenantId m)), New c] \<and>
      sources c = [AzureCliCredential (tenantId m), DefaultAzureCredential] \<and>
      chain_attempts entry (sources c) =
        (if \<exists>t. entry (AzureCliCredential (tenantId m)) = Resolves (Some t)
         then [AzureCliCredential (tenantId m)]
         else [AzureCliCredential (tenantId m), DefaultAzureCredential])"
    by (auto simp: defaultCredential_def split: getToken_result.splits option.splits)
  have d: "\<not> truthy (tenantId m) \<and> fst (defaultCredential idp m e) = Inr c \<longrightarrow>
      c = DefaultAzureCredential \<and>
      snd (defaultCredential idp m e) = [New DefaultAzureCredential] \<and>
      sources c = [DefaultAzureCredential] \<and>
      chain_attempts entry (sources c) = [DefaultAzureCredential]"
    by (auto simp: defaultCredential_def split: getToken_result.splits option.splits)
  show ?thesis
    by (rule conjI [OF a conjI [OF b conjI [OF c d]]])
qed

lemma defaultCredential_contoso_tenant_ok:
  "defaultCredential idp_ok contoso_tenant e =
     (Inr (ChainedTokenCredential [AzureCliCredential (Some ''t1''), DefaultAzureCredential]),
      [New DefaultAzureCredential, New (AzureCliCredential (Some ''t1'')),
       New (ChainedTokenCredential [AzureCliCredential (Some ''t1''), DefaultAzureCredential])])"
  by (simp add: defaultCredential_def idp_ok_def contoso_tenant_def truthy_def)

text \<open>C8 with and without a tenant id, for a CLI credential that fails.\<close>
theorem default_chain_order_witness:
  "authMode env_default \<noteq> ''obo'' \<and> truthy (tenantId contoso_tenant) \<and>
   fst (defaultCredential idp_ok contoso_tenant (env_of (getAzureDevOpsToken contoso_tenant idp_ok env_default))) =
     Inr (ChainedTokenCredential [AzureCliCredential (Some ''t1''), DefaultAzureCredential]) \<and>
   last (trace_of (getAzureDevOpsToken contoso_tenant idp_ok env_default)) =
     GetToken (ChainedTokenCredential [AzureCliCredential (Some ''t1''), DefaultAzureCredential]) scope \<and>
   chain_attempts cli_fails
       (sources (ChainedTokenCredential [AzureCliCredential (Some ''t1''), DefaultAzureCredential])) =
     [AzureCliCredential (Some ''t1''), DefaultAzureCredential] \<and>
   \<not> truthy (tenantId contoso) \<and>
   fst (defaultCredential idp_ok contoso (env_of (getAzureDevOpsToken contoso idp_ok env_default))) =
     Inr DefaultAzureCredential \<and>
   last (trace_of (getAzureDevOpsToken contoso idp_ok env_default)) =
     GetToken DefaultAzureCredential scope \<and>
   chain_attempts cli_fails (sources DefaultAzureCredential) = [DefaultAzureCredential]"
proof -
  have n: "authMode env_default \<noteq> ''obo''"
    by (simp add: authMode_env_default)
  have t: "truthy (tenantId contoso_tenant)" and t': "tenantId contoso_tenant = Some ''t1''"
    by (simp_all add: contoso_tenant_def truthy_def)
  have u: "\<not> truthy (tenantId contoso)"
    by (simp add: contoso_def truthy_def)
  have b1: "fst (defaultCredential idp_ok contoso_tenant
               (env_of (getAzureDevOpsToken contoso_tenant idp_ok env_default))) =
     Inr (ChainedTokenCredential [AzureCliCredential (Some ''t1''), DefaultAzureCredential])"
    by (simp add: defaultCredential_contoso_tenant_ok)
  have b2: "fst (defaultCredential idp_ok contoso (env_of (getAzureDevOpsToken contoso idp_ok env_default))) =
     Inr DefaultAzureCredential"
    by (simp add: defaultCredential_contoso_ok)
  have f: "\<not> (\<exists>t. cli_fails (AzureCliCredential (Some ''t1'')) = Resolves (Some t))"
    by (simp add: cli_fails_def)
  note th1 = default_chain_order
    [of env_default "ChainedTokenCredential [AzureCliCredential (Some ''t1''), DefaultAzureCredential]"
        scope contoso_tenant idp_ok
        "ChainedTokenCredential [AzureCliCredential (Some ''t1''), DefaultAzureCredential]"
        "env_of (getAzureDevOpsToken contoso_tenant idp_ok env_default)" cli_fails]
  note th2 = default_chain_order
    [of env_default DefaultAzureCredential scope contoso idp_ok DefaultAzureCredential
        "env_of (getAzureDevOpsToken contoso idp_ok env_default)" cli_fails]
  from th1 n b1 have l1: "last (trace_of (getAzureDevOpsToken contoso_tenant idp_ok env_default)) =
     GetToken (ChainedTokenCredential [AzureCliCredential (Some ''t1''), DefaultAzureCredential]) scope"
    by blast
  from th1 t b1 have "chain_attempts cli_fails
       (sources (ChainedTokenCredential [AzureCliCredential (Some ''t1''), DefaultAzureCredential])) =
     (if \<exists>t. cli_fails (AzureCliCredential (tenantId contoso_tenant)) = Resolves (Some t)
      then [AzureCliCredential (tenantId contoso_tenant)]
      else [AzureCliCredential (tenantId contoso_tenant), DefaultAzureCredential])"
    by blast
  with f t' have a1: "chain_attempts cli_fails
       (sources (ChainedTokenCredential [AzureCliCredential (Some ''t1''), DefaultAzureCredential])) =
     [AzureCliCredential (Some ''t1''), DefaultAzureCredential]"
    by simp
  from th2 n b2 have l2: "last (trace_of (getAzureDevOpsToken contoso idp_ok env_default)) =
     GetToken DefaultAzureCredential scope"
    by blast
  from th2 u b2 have a2: "chain_attempts cli_fails (sources DefaultAzureCredential) = [DefaultAzureCredential]"
    by blast
  from n t b1 l1 a1 u b2 l2 a2 show ?thesis
    by blast
qed

subsection \<open>C9: where the on-behalf-of settings come from\<close>

lemma present_js_or: "present (js_or (env a) (env b)) = first_non_empty env a b"
  by (simp add: present_def js_or_def first_non_empty_def)

text \<open>
  C9, as amended. The user assertion, the client id and the client secret are each read
  from a primary and a fallback environment variable, the first non-empty value winning.
  The tenant id is read the same way from \<^verbatim>\<open>AZURE_AD_TENANT_ID\<close> and
  \<^verbatim>\<open>AZURE_TENANT_ID\<close>, and when both are empty it falls back to a third source, the
  tenant id of start-up (the \<^verbatim>\<open>--tenant\<close> flag, or else \<^verbatim>\<open>AZURE_AD_TENANT_ID\<close> as it
  was at start-up). The on-behalf-of credential is constructed from these four values.
\<close>
theorem obo_settings_sources:
  "present (userAssertion env) = first_non_empty env ''MCP_USER_ASSERTION'' ''ADO_USER_ASSERTION'' \<and>
   present (clientId env) = first_non_empty env ''AZURE_AD_CLIENT_ID'' ''AZURE_CLIENT_ID'' \<and>
   present (clientSecret env) = first_non_empty env ''AZURE_AD_CLIENT_SECRET'' ''AZURE_CLIENT_SECRET'' \<and>
   present (envTenant m env) =
     (case first_non_empty env ''AZURE_AD_TENANT_ID'' ''AZURE_TENANT_ID'' of
        Some v \<Rightarrow> Some v
      | None \<Rightarrow> present (tenantId m)) \<and>
   (startup args env0 = Inr m \<longrightarrow> tenantId m = js_or (tenant args) (env0 ''AZURE_AD_TENANT_ID'')) \<and>
   (authMode env = ''obo'' \<and> truthy (userAssertion env) \<and> truthy (envTenant m env) \<and>
    truthy (clientId env) \<and> truthy (clientSecret env) \<longrightarrow>
      New (OnBehalfOfCredential (envTenant m env) (clientId env) (clientSecret env) (userAssertion env))
        \<in> set (trace_of (getAzureDevOpsToken m idp env)))"
proof -
  have t: "present (envTenant m env) =
     (case first_non_empty env ''AZURE_AD_TENANT_ID'' ''AZURE_TENANT_ID'' of
        Some v \<Rightarrow> Some v
      | None \<Rightarrow> present (tenantId m))"
    by (auto simp: envTenant_def present_def js_or_def first_non_empty_def truthy_def
        split: option.splits)
  have s: "startup args env0 = Inr m \<longrightarrow> tenantId m = js_or (tenant args) (env0 ''AZURE_AD_TENANT_ID'')"
    by (auto simp: startup_def Let_def split: option.splits if_splits)
  have n: "authMode env = ''obo'' \<and> truthy (userAssertion env) \<and> truthy (envTenant m env) \<and>
    truthy (clientId env) \<and> truthy (clientSecret env) \<longrightarrow>
      New (OnBehalfOfCredential (envTenant m env) (clientId env) (clientSecret env) (userAssertion env))
        \<in> set (trace_of (getAzureDevOpsToken m idp env))"
    by (simp add: getAzureDevOpsToken_def oboFlow_def trace_of_def Let_def
        split: getToken_result.splits option.splits)
  from t s n show ?thesis
    by (simp add: userAssertion_def clientId_def clientSecret_def present_js_or)
qed

text \<open>The amended C9 at a complete on-behalf-of environment.\<close>
theorem obo_settings_sources_witness:
  "authMode env_obo = ''obo'' \<and> truthy (userAssertion env_obo) \<and> truthy (envTenant contoso env_obo) \<and>
   truthy (clientId env_obo) \<and> truthy (clientSecret env_obo) \<and>
   startup \<lparr>organization = Some ''contoso'', tenant = None\<rparr> env_obo = Inr contoso \<and>
   New (OnBehalfOfCredential (Some ''t0'') (Some ''app'') (Some ''s3cret'') (Some ''user-jwt''))
     \<in> set (trace_of (getAzureDevOpsToken contoso idp_ok env_obo))"
proof -
  have s: "startup \<lparr>organization = Some ''contoso'', tenant = None\<rparr> env_obo = Inr contoso"
    by (simp add: startup_def js_or_def truthy_def env_obo_def contoso_def)
  have h: "authMode env_obo = ''obo'' \<and> truthy (userAssertion env_obo) \<and>
           truthy (envTenant contoso env_obo) \<and> truthy (clientId env_obo) \<and>
           truthy (clientSecret env_obo)"
    by (simp add: authMode_env_obo obo_settings_env_obo truthy_def)
  from h obo_settings_sources
    [of env_obo contoso "\<lparr>organization = Some ''contoso'', tenant = None\<rparr>" env_obo idp_ok]
  have "New (OnBehalfOfCredential (envTenant contoso env_obo) (clientId env_obo)
               (clientSecret env_obo) (userAssertion env_obo))
          \<in> set (trace_of (getAzureDevOpsToken contoso idp_ok env_obo))"
    by blast
  then have "New (OnBehalfOfCredential (Some ''t0'') (Some ''app'') (Some ''s3cret'') (Some ''user-jwt''))
     \<in> set (trace_of (getAzureDevOpsToken contoso idp_ok env_obo))"
    by (simp add: obo_settings_env_obo)
  with h s show ?thesis
    by blast
qed

text \<open>
  C9 as stated fails for the tenant id: with neither tenant variable set and the
  \<^verbatim>\<open>--tenant\<close> flag given, the tenant id of the on-behalf-of flow is the flag's value,
  which the rule of two environment variables does not give.
\<close>
theorem tenant_from_flag_counterexample:
  "startup \<lparr>organization = Some ''contoso'', tenant = Some ''t1''\<rparr> env_obo_no_tenant = Inr contoso_tenant \<and>
   first_non_empty env_obo_no_tenant ''AZURE_AD_TENANT_ID'' ''AZURE_TENANT_ID'' = None \<and>
   envTenant contoso_tenant env_obo_no_tenant = Some ''t1'' \<and>
   present (envTenant contoso_tenant env_obo_no_tenant) \<noteq>
     first_non_empty env_obo_no_tenant ''AZURE_AD_TENANT_ID'' ''AZURE_TENANT_ID''"
  by (simp add: startup_def js_or_def truthy_def env_obo_no_tenant_def contoso_tenant_def
      first_non_empty_def envTenant_def present_def)

subsection \<open>C10: the mode flag\<close>











end
